theory Spec2Isabelle
  imports Main "HOL-Library.Word"
begin

section \<open>The wwo client library: data model, decoders and request construction\<close>

text \<open>
  The Go package \<^verbatim>\<open>wwo\<close> consists of a data model with three custom scalar decoders
  (\<^verbatim>\<open>Date\<close>, \<^verbatim>\<open>Time12\<close>, \<^verbatim>\<open>TimeHMM\<close>) and of a client (\<^verbatim>\<open>fetch\<close> and seven
  \<^verbatim>\<open>Get...\<close> operations). The package's own functions are embedded below one by one.
  They call into Go's standard library (\<^verbatim>\<open>strconv\<close>, \<^verbatim>\<open>strings\<close>, \<^verbatim>\<open>time\<close>,
  \<^verbatim>\<open>net/url\<close>, \<^verbatim>\<open>encoding/xml\<close>, \<^verbatim>\<open>net/http\<close>); the library functions that
  compute are modelled after the library's source and documentation, and the two
  collaborators that perform I/O or walk a whole document (\<^verbatim>\<open>http.Get\<close> with
  \<^verbatim>\<open>ioutil.ReadAll\<close>, and \<^verbatim>\<open>xml.Unmarshal\<close> of a whole report) are parameters.
\<close>

subsection \<open>Errors\<close>

text \<open>
  Go errors as values. \<open>errorString\<close> is the type behind \<^verbatim>\<open>errors.New\<close>: its
  \<^verbatim>\<open>Error()\<close> text is the string it was made from. \<open>NumError\<close> is
  \<^verbatim>\<open>*strconv.NumError\<close> (function, input, cause), \<open>ParseError\<close> is
  \<^verbatim>\<open>*time.ParseError\<close> (layout, value), and \<open>External\<close> stands for the errors of the
  collaborators (transport failures, malformed markup).
\<close>

datatype numerr = ErrSyntax | ErrRange

datatype error =
    errorString (message: string)
  | NumError string string numerr
  | ParseError string string
  | External string

definition errors_New :: "string \<Rightarrow> error" where
  "errors_New msg = errorString msg"

subsection \<open>strconv\<close>

definition isDigitChar :: "char \<Rightarrow> bool" where
  "isDigitChar c = (48 \<le> (of_char c :: nat) \<and> (of_char c :: nat) \<le> 57)"

definition digitVal :: "char \<Rightarrow> nat" where
  "digitVal c = of_char c - 48"

definition maxUint64 :: nat where
  "maxUint64 = 2 ^ 64 - 1"

definition wrap64 :: "nat \<Rightarrow> nat" where
  "wrap64 n = n mod 2 ^ 64"

text \<open>
  The digit loop of \<^verbatim>\<open>strconv.ParseUint(s, 10, bitSize)\<close>. In base 10 every byte that
  is not a decimal digit is a syntax error (a letter has digit value at least 10, an
  underscore is only accepted in base 0). \<open>n\<close> is a \<^verbatim>\<open>uint64\<close>: the addition wraps, and
  the loop detects that.
\<close>

fun ParseUint_loop :: "string \<Rightarrow> nat \<Rightarrow> nat \<Rightarrow> string \<Rightarrow> nat \<times> error option" where
  "ParseUint_loop s0 maxVal n [] = (n, None)"
| "ParseUint_loop s0 maxVal n (c # cs) =
     (if \<not> isDigitChar c then (0, Some (NumError ''ParseUint'' s0 ErrSyntax))
      else if n \<ge> maxUint64 div 10 + 1
        then (maxVal, Some (NumError ''ParseUint'' s0 ErrRange))
      else
        let n' = n * 10;
            n1 = wrap64 (n' + digitVal c)
        in if n1 < n' \<or> n1 > maxVal
             then (maxVal, Some (NumError ''ParseUint'' s0 ErrRange))
           else ParseUint_loop s0 maxVal n1 cs)"

definition ParseUint_base10 :: "string \<Rightarrow> nat \<Rightarrow> nat \<times> error option" where
  "ParseUint_base10 s bitSize =
     (if s = [] then (0, Some (NumError ''ParseUint'' s ErrSyntax))
      else ParseUint_loop s (2 ^ bitSize - 1) 0 s)"

text \<open>
  \<^verbatim>\<open>strconv.ParseInt(s, 10, bitSize)\<close>: an optional sign, then \<^verbatim>\<open>ParseUint\<close> on the
  rest, then the range check of the signed type.
\<close>

definition ParseInt_base10 :: "string \<Rightarrow> nat \<Rightarrow> int \<times> error option" where
  "ParseInt_base10 s0 bitSize =
     (if s0 = [] then (0, Some (NumError ''ParseInt'' s0 ErrSyntax))
      else
        (let neg = (hd s0 = CHR ''-'');
             s = (if hd s0 = CHR ''+'' \<or> hd s0 = CHR ''-'' then tl s0 else s0);
             (un, err) = ParseUint_base10 s bitSize;
             cutoff = 2 ^ (bitSize - 1)
         in (if err = Some (NumError ''ParseUint'' s ErrSyntax)
               then (0, Some (NumError ''ParseInt'' s0 ErrSyntax))
             else if \<not> neg \<and> un \<ge> cutoff
               then (int cutoff - 1, Some (NumError ''ParseInt'' s0 ErrRange))
             else if neg \<and> un > cutoff
               then (- int cutoff, Some (NumError ''ParseInt'' s0 ErrRange))
             else (if neg then - int un else int un, None))))"

subsection \<open>strings\<close>

definition HasPrefix :: "string \<Rightarrow> string \<Rightarrow> bool" where
  "HasPrefix s prefix = (length s \<ge> length prefix \<and> take (length prefix) s = prefix)"

text \<open>
  \<^verbatim>\<open>strings.TrimSpace\<close> cuts the white space of Unicode (\<^verbatim>\<open>unicode.IsSpace\<close>) from both
  ends of a string of UTF-8 bytes. \<open>isSpaceRune\<close> tells whether a byte sequence is the
  encoding of one white-space character: the six of ASCII (tab, line feed, vertical tab,
  form feed, carriage return, space), U+0085 and U+00A0 in two bytes, and U+1680,
  U+2000 to U+200A, U+2028, U+2029, U+202F, U+205F and U+3000 in three. Bytes that are
  no valid encoding decode to the replacement character, which is no space, so cutting
  stops there. (Go runs an ASCII loop first and falls back to \<^verbatim>\<open>TrimFunc\<close> and
  \<^verbatim>\<open>TrimRightFunc\<close> at the first byte from \<open>0x80\<close> up; the outcome is the left cut
  followed by the right cut.)
\<close>

definition isSpaceRune :: "string \<Rightarrow> bool" where
  "isSpaceRune bs =
     (case map of_char bs :: nat list of
        [b] \<Rightarrow> b \<in> {9, 10, 11, 12, 13, 32}
      | [b1, b2] \<Rightarrow> b1 = 194 \<and> b2 \<in> {133, 160}
      | [b1, b2, b3] \<Rightarrow>
          (b1 = 225 \<and> b2 = 154 \<and> b3 = 128)
          \<or> (b1 = 226 \<and> b2 = 128 \<and> ((128 \<le> b3 \<and> b3 \<le> 138) \<or> b3 \<in> {168, 169, 175}))
          \<or> (b1 = 226 \<and> b2 = 129 \<and> b3 = 159)
          \<or> (b1 = 227 \<and> b2 = 128 \<and> b3 = 128)
      | _ \<Rightarrow> False)"

function TrimLeft_IsSpace :: "string \<Rightarrow> string" where
  "TrimLeft_IsSpace s =
     (if 1 \<le> length s \<and> isSpaceRune (take 1 s) then TrimLeft_IsSpace (drop 1 s)
      else if 2 \<le> length s \<and> isSpaceRune (take 2 s) then TrimLeft_IsSpace (drop 2 s)
      else if 3 \<le> length s \<and> isSpaceRune (take 3 s) then TrimLeft_IsSpace (drop 3 s)
      else s)"
  by pat_completeness auto
termination
  by (relation "measure length") auto

function TrimRight_IsSpace :: "string \<Rightarrow> string" where
  "TrimRight_IsSpace s =
     (if 1 \<le> length s \<and> isSpaceRune (drop (length s - 1) s)
        then TrimRight_IsSpace (take (length s - 1) s)
      else if 2 \<le> length s \<and> isSpaceRune (drop (length s - 2) s)
        then TrimRight_IsSpace (take (length s - 2) s)
      else if 3 \<le> length s \<and> isSpaceRune (drop (length s - 3) s)
        then TrimRight_IsSpace (take (length s - 3) s)
      else s)"
  by pat_completeness auto
termination
  by (relation "measure length") auto

definition TrimSpace :: "string \<Rightarrow> string" where
  "TrimSpace s = TrimRight_IsSpace (TrimLeft_IsSpace s)"

subsection \<open>time.Duration\<close>

text \<open>
  A \<^verbatim>\<open>time.Duration\<close> is an \<^verbatim>\<open>int64\<close> count of nanoseconds. The decoders below only
  produce values far inside the 64-bit range (less than two days from \<open>TimeHMM\<close>,
  about a year from \<open>Time12\<close>), so it is an \<open>int\<close> here; the one operation that
  saturates, \<^verbatim>\<open>Time.Sub\<close>, has its bounds written out.
\<close>

type_synonym Duration = int

definition Second :: Duration where
  "Second = 1000000000"

definition Minute :: Duration where
  "Minute = 60 * Second"

definition Hour :: Duration where
  "Hour = 60 * Minute"

subsection \<open>The time package\<close>

text \<open>
  A \<^verbatim>\<open>time.Time\<close> is an instant. Every instant in this package is in UTC
  (\<^verbatim>\<open>time.Parse\<close> without a zone in the layout returns UTC, and \<^verbatim>\<open>time.Time{}\<close> is
  UTC), where an instant and its calendar reading determine each other, so a \<open>Time\<close>
  is the reading: proleptic Gregorian year, month, day and the clock. The zero value
  \<^verbatim>\<open>time.Time{}\<close> is January 1, year 1, 00:00:00 UTC.
\<close>

record Time =
  year :: int
  month :: int
  day :: int
  hour :: int
  minute :: int
  second :: int
  nsec :: int

definition zero_Time :: Time where
  "zero_Time = \<lparr>year = 1, month = 1, day = 1, hour = 0, minute = 0, second = 0, nsec = 0\<rparr>"

definition isLeap :: "int \<Rightarrow> bool" where
  "isLeap y = (y mod 4 = 0 \<and> (y mod 100 \<noteq> 0 \<or> y mod 400 = 0))"

definition daysIn :: "int \<Rightarrow> int \<Rightarrow> int" where
  "daysIn m y =
     (if m = 2 \<and> isLeap y then 29
      else if m = 2 then 28
      else if m = 4 \<or> m = 6 \<or> m = 9 \<or> m = 11 then 30
      else 31)"

text \<open>Days from January 1 of year 1 to January 1 of year \<open>y\<close> (negative before year 1).\<close>

definition daysBeforeYear :: "int \<Rightarrow> int" where
  "daysBeforeYear y = 365 * (y - 1) + (y - 1) div 4 - (y - 1) div 100 + (y - 1) div 400"

text \<open>Days from January 1 to the first of month \<open>m\<close> in year \<open>y\<close>.\<close>

definition daysBeforeMonth :: "int \<Rightarrow> int \<Rightarrow> int" where
  "daysBeforeMonth m y = sum_list (map (\<lambda>k. daysIn (int k) y) [1 ..< nat m])"

text \<open>Seconds from \<^verbatim>\<open>time.Time{}\<close> to the instant.\<close>

definition sinceZero :: "Time \<Rightarrow> int" where
  "sinceZero t =
     (daysBeforeYear (year t) + daysBeforeMonth (month t) (year t) + (day t - 1)) * 86400
       + hour t * 3600 + minute t * 60 + second t"

definition minDuration :: Duration where
  "minDuration = - (2 ^ 63)"

definition maxDuration :: Duration where
  "maxDuration = 2 ^ 63 - 1"

text \<open>
  \<^verbatim>\<open>t.Sub(u)\<close>: the difference in nanoseconds; when it does not fit an \<^verbatim>\<open>int64\<close>
  the result is the minimum or the maximum duration.
\<close>

definition Sub :: "Time \<Rightarrow> Time \<Rightarrow> Duration" where
  "Sub t u =
     (let d = (sinceZero t - sinceZero u) * Second + (nsec t - nsec u)
      in if d < minDuration then minDuration
         else if maxDuration < d then maxDuration
         else d)"

text \<open>Helpers of \<^verbatim>\<open>time.Parse\<close>; \<open>None\<close> is \<^verbatim>\<open>errBad\<close>.\<close>

definition isDigit :: "string \<Rightarrow> nat \<Rightarrow> bool" where
  "isDigit s i = (if length s \<le> i then False else isDigitChar (s ! i))"

definition getnum :: "string \<Rightarrow> bool \<Rightarrow> (int \<times> string) option" where
  "getnum s fixed =
     (if \<not> isDigit s 0 then None
      else if \<not> isDigit s 1 then
        (if fixed then None else Some (int (digitVal (s ! 0)), drop 1 s))
      else Some (int (digitVal (s ! 0)) * 10 + int (digitVal (s ! 1)), drop 2 s))"

definition cutspace :: "string \<Rightarrow> string" where
  "cutspace s = dropWhile (\<lambda>c. c = CHR '' '') s"

function skip :: "string \<Rightarrow> string \<Rightarrow> string option" where
  "skip v [] = Some v"
| "skip v (p # ps) =
     (if p = CHR '' '' then
        (if v \<noteq> [] \<and> hd v \<noteq> CHR '' '' then None
         else skip (cutspace v) (cutspace (p # ps)))
      else if v = [] \<or> hd v \<noteq> p then None
      else skip (tl v) ps)"
  by pat_completeness auto
termination
  by (relation "measure (\<lambda>(v, p). length p)")
     (auto simp: cutspace_def less_Suc_eq_le length_dropWhile_le)

text \<open>
  \<^verbatim>\<open>leadingInt\<close> and \<^verbatim>\<open>atoi\<close> of the time package: the leading digits of a string as a
  number (\<open>None\<close> on overflow of the 64-bit accumulator), and a whole string as a signed
  number.
\<close>

fun leadingInt :: "nat \<Rightarrow> string \<Rightarrow> (nat \<times> string) option" where
  "leadingInt x [] = Some (x, [])"
| "leadingInt x (c # cs) =
     (if \<not> isDigitChar c then Some (x, c # cs)
      else if x > 2 ^ 63 div 10 then None
      else
        let x' = x * 10 + digitVal c
        in if x' > 2 ^ 63 then None else leadingInt x' cs)"

definition atoi :: "string \<Rightarrow> int option" where
  "atoi s =
     (let neg = (s \<noteq> [] \<and> hd s = CHR ''-'');
          s' = (if s \<noteq> [] \<and> (hd s = CHR ''-'' \<or> hd s = CHR ''+'') then tl s else s)
      in case leadingInt 0 s' of
           None \<Rightarrow> None
         | Some (q, rem) \<Rightarrow>
             if rem \<noteq> [] then None
             else if neg then Some (- int q) else Some (int q))"

text \<open>
  \<^verbatim>\<open>time.Parse("3:04 PM", value)\<close>. The layout is an hour of one or two digits in
  \<open>[0, 12]\<close>, a colon, a minute of two digits, a space, and \<^verbatim>\<open>AM\<close> or \<^verbatim>\<open>PM\<close>. The
  layout names no year, month or day; Parse takes year 0, January 1 for them (the
  package documents: ``Elements omitted from the layout are assumed to be zero or, when
  zero is impossible, one, so parsing "3:04pm" returns the time corresponding to Jan 1,
  year 0, 15:04:00 UTC (note that because the year is 0, this time is before the zero
  Time)''). On every failure the result is the zero \<open>Time\<close> and an error.
\<close>

definition Parse_3_04_PM :: "string \<Rightarrow> Time \<times> error option" where
  "Parse_3_04_PM avalue =
     (let fail = (zero_Time, Some (ParseError ''3:04 PM'' avalue)) in
      (case getnum avalue False of
         None \<Rightarrow> fail
       | Some (hr, v1) \<Rightarrow>
           (if hr < 0 \<or> 12 < hr then fail
            else
              (case skip v1 '':'' of
                 None \<Rightarrow> fail
               | Some v2 \<Rightarrow>
                   (case getnum v2 True of
                      None \<Rightarrow> fail
                    | Some (mn, v3) \<Rightarrow>
                        (if mn < 0 \<or> 60 \<le> mn then fail
                         else
                           (case skip v3 '' '' of
                              None \<Rightarrow> fail
                            | Some v4 \<Rightarrow>
                                (if length v4 < 2 then fail
                                 else
                                   (let p = take 2 v4;
                                        v5 = drop 2 v4;
                                        pmSet = (p = ''PM'');
                                        amSet = (p = ''AM'')
                                    in (if \<not> pmSet \<and> \<not> amSet then fail
                                        else if v5 \<noteq> [] then fail
                                        else
                                          (let hr' = (if pmSet \<and> hr < 12 then hr + 12
                                                      else if amSet \<and> hr = 12 then 0
                                                      else hr)
                                           in (\<lparr>year = 0, month = 1, day = 1, hour = hr',
                                                 minute = mn, second = 0, nsec = 0\<rparr>,
                                               None))))))))))))"

text \<open>
  \<^verbatim>\<open>time.Parse("2006-01-02", value)\<close>: a year of four digits, a month of two digits in
  \<open>[1, 12]\<close>, a day of two digits that exists in that month of that year.
\<close>

definition Parse_2006_01_02 :: "string \<Rightarrow> Time \<times> error option" where
  "Parse_2006_01_02 avalue =
     (let fail = (zero_Time, Some (ParseError ''2006-01-02'' avalue)) in
      (if length avalue < 4 \<or> \<not> isDigit avalue 0 then fail
       else
         (case atoi (take 4 avalue) of
            None \<Rightarrow> fail
          | Some yr \<Rightarrow>
              (case skip (drop 4 avalue) ''-'' of
                 None \<Rightarrow> fail
               | Some v2 \<Rightarrow>
                   (case getnum v2 True of
                      None \<Rightarrow> fail
                    | Some (mo, v3) \<Rightarrow>
                        (if mo \<le> 0 \<or> 12 < mo then fail
                         else
                           (case skip v3 ''-'' of
                              None \<Rightarrow> fail
                            | Some v4 \<Rightarrow>
                                (case getnum v4 True of
                                   None \<Rightarrow> fail
                                 | Some (dy, v5) \<Rightarrow>
                                     (if v5 \<noteq> [] then fail
                                      else if dy < 1 \<or> dy > daysIn mo yr then fail
                                      else (\<lparr>year = yr, month = mo, day = dy, hour = 0,
                                              minute = 0, second = 0, nsec = 0\<rparr>,
                                            None))))))))))"

text \<open>
  \<^verbatim>\<open>appendInt\<close> of the time package: the decimal digits of \<open>x\<close>, zero-padded on the left
  to \<open>width\<close>; a negative number gets a minus sign first.
\<close>

fun digits :: "nat \<Rightarrow> string" where
  "digits n = (if n < 10 then [char_of (48 + n)] else digits (n div 10) @ [char_of (48 + n mod 10)])"

definition appendInt :: "int \<Rightarrow> nat \<Rightarrow> string" where
  "appendInt x width =
     (let u = nat \<bar>x\<bar>;
          ds = digits u
      in (if x < 0 then ''-'' else []) @ replicate (width - length ds) CHR ''0'' @ ds)"

text \<open>\<^verbatim>\<open>t.Format("2006-01-02")\<close>.\<close>

definition Format_2006_01_02 :: "Time \<Rightarrow> string" where
  "Format_2006_01_02 t = appendInt (year t) 4 @ ''-'' @ appendInt (month t) 2 @ ''-'' @ appendInt (day t) 2"

subsection \<open>The scalar decoders: Date, Time12, TimeHMM\<close>

type_synonym Date = Time

text \<open>
  Each of the three types has a method
  \<^verbatim>\<open>UnmarshalXML(d *xml.Decoder, start xml.StartElement) error\<close> on a pointer receiver.
  The first argument is what \<^verbatim>\<open>d.DecodeElement(&content, &start)\<close> delivers: an error,
  or the character data of the element. The second is the receiver before the call;
  the result is the receiver after the call and the returned error.
\<close>

definition Date_UnmarshalXML :: "error + string \<Rightarrow> Date \<Rightarrow> Date \<times> error option" where
  "Date_UnmarshalXML element t =
     (case element of
        Inl err \<Rightarrow> (t, Some err)
      | Inr content \<Rightarrow>
          let (ti, err) = Parse_2006_01_02 content
          in (ti, err))"

definition Date_String :: "Date \<Rightarrow> string" where
  "Date_String t = Format_2006_01_02 t"

type_synonym Time12 = Duration

definition Time12_UnmarshalXML :: "error + string \<Rightarrow> Time12 \<Rightarrow> Time12 \<times> error option" where
  "Time12_UnmarshalXML element t =
     (case element of
        Inl err \<Rightarrow> (t, Some err)
      | Inr content \<Rightarrow>
          if HasPrefix content ''No '' then (- 1, None)
          else
            let (ti, err) = Parse_3_04_PM content
            in (Sub ti zero_Time, err))"

type_synonym TimeHMM = Duration

definition TimeHMM_UnmarshalXML :: "error + string \<Rightarrow> TimeHMM \<Rightarrow> TimeHMM \<times> error option" where
  "TimeHMM_UnmarshalXML element t =
     (case element of
        Inl err \<Rightarrow> (t, Some err)
      | Inr content \<Rightarrow>
          let (u, err) = ParseUint_base10 content 12;
              h = u div 100;
              m = u mod 100
          in (int h * Hour + int m * Minute, err))"

subsection \<open>The data model\<close>

text \<open>
  The structs of the package, field by field. Go's \<^verbatim>\<open>int\<close> is \<open>int\<close> and \<^verbatim>\<open>uint\<close> is
  \<open>nat\<close> (decoding checks the 64-bit range, nothing here computes with them); a
  \<^verbatim>\<open>float64\<close> is its 64 bits; a pointer field is an \<open>option\<close>, a slice a list. An
  embedded struct is a field named after its type. \<open>new_T\<close> is the zero value that
  \<^verbatim>\<open>new(T)\<close> allocates.
\<close>

datatype float64 = Float64 (bits: "64 word")

definition zero_float64 :: float64 where
  "zero_float64 = Float64 0"

record Request =
  Query :: string
  Type :: string

definition new_Request :: Request where
  "new_Request = \<lparr>Request.Query = '''', Request.Type = ''''\<rparr>"

record Zone =
  Offset :: float64

definition new_Zone :: Zone where
  "new_Zone = \<lparr>Zone.Offset = zero_float64\<rparr>"

record Area =
  Country :: string
  Latitude :: float64
  Longitude :: float64
  Name :: string
  Region :: string
  Population :: nat
  DistanceMI :: float64
  WeatherURL :: string
  Zone :: "Zone option"

definition new_Area :: Area where
  "new_Area = \<lparr>Area.Country = '''', Area.Latitude = zero_float64, Area.Longitude = zero_float64, Area.Name = '''', Area.Region = '''', Area.Population = 0, Area.DistanceMI = zero_float64, Area.WeatherURL = '''', Area.Zone = None\<rparr>"

record TempRange =
  MaxTemp :: int
  MaxTempF :: int
  MinTemp :: int
  MinTempF :: int

definition new_TempRange :: TempRange where
  "new_TempRange = \<lparr>TempRange.MaxTemp = 0, TempRange.MaxTempF = 0, TempRange.MinTemp = 0, TempRange.MinTempF = 0\<rparr>"

record Astronomy =
  Moonrise :: Time12
  Moonset :: Time12
  Sunrise :: Time12
  Sunset :: Time12

definition new_Astronomy :: Astronomy where
  "new_Astronomy = \<lparr>Astronomy.Moonrise = 0, Astronomy.Moonset = 0, Astronomy.Sunrise = 0, Astronomy.Sunset = 0\<rparr>"

record Condition =
  Time :: TimeHMM
  CloudCover :: nat
  DewPoint :: int
  DewPointF :: int
  FeelsLike :: int
  FeelsLikeF :: int
  HeatIndex :: int
  HeatIndexF :: int
  Humidity :: nat
  Precip :: float64
  PrecipInches :: float64
  Pressure :: nat
  PressureInches :: nat
  Temp :: int
  TempF :: int
  Visibility :: nat
  VisibilityMiles :: nat
  WeatherCode :: nat
  WeatherDesc :: string
  WeatherIconUrl :: string
  WindChill :: int
  WindChillF :: int
  WindDir :: nat
  WindDirCompass :: string
  WindGust :: nat
  WindGustMiles :: nat
  WindSpeed :: nat
  WindSpeedKnots :: nat
  WindSpeedMeterSec :: nat
  WindSpeedMiles :: nat

definition new_Condition :: Condition where
  "new_Condition = \<lparr>Condition.Time = 0, Condition.CloudCover = 0, Condition.DewPoint = 0, Condition.DewPointF = 0, Condition.FeelsLike = 0, Condition.FeelsLikeF = 0, Condition.HeatIndex = 0, Condition.HeatIndexF = 0, Condition.Humidity = 0, Condition.Precip = zero_float64, Condition.PrecipInches = zero_float64, Condition.Pressure = 0, Condition.PressureInches = 0, Condition.Temp = 0, Condition.TempF = 0, Condition.Visibility = 0, Condition.VisibilityMiles = 0, Condition.WeatherCode = 0, Condition.WeatherDesc = '''', Condition.WeatherIconUrl = '''', Condition.WindChill = 0, Condition.WindChillF = 0, Condition.WindDir = 0, Condition.WindDirCompass = '''', Condition.WindGust = 0, Condition.WindGustMiles = 0, Condition.WindSpeed = 0, Condition.WindSpeedKnots = 0, Condition.WindSpeedMeterSec = 0, Condition.WindSpeedMiles = 0\<rparr>"

record Weather =
  TempRange :: TempRange
  Astronomy :: Astronomy
  Date :: Date
  SunHour :: float64
  TotalSnow :: float64
  UVIndex :: nat
  Condition :: "Condition list"

definition new_Weather :: Weather where
  "new_Weather = \<lparr>Weather.TempRange = new_TempRange, Weather.Astronomy = new_Astronomy, Weather.Date = zero_Time, Weather.SunHour = zero_float64, Weather.TotalSnow = zero_float64, Weather.UVIndex = 0, Weather.Condition = []\<rparr>"

record ForecastChances =
  ChanceFog :: nat
  ChanceFrost :: nat
  ChanceOvercast :: nat
  ChanceRain :: nat
  ChanceSnow :: nat
  ChanceHighTemp :: nat
  ChanceDry :: nat
  ChanceSunshine :: nat
  ChanceThunder :: nat
  ChanceWindy :: nat

definition new_ForecastChances :: ForecastChances where
  "new_ForecastChances = \<lparr>ForecastChances.ChanceFog = 0, ForecastChances.ChanceFrost = 0, ForecastChances.ChanceOvercast = 0, ForecastChances.ChanceRain = 0, ForecastChances.ChanceSnow = 0, ForecastChances.ChanceHighTemp = 0, ForecastChances.ChanceDry = 0, ForecastChances.ChanceSunshine = 0, ForecastChances.ChanceThunder = 0, ForecastChances.ChanceWindy = 0\<rparr>"

record ForecastCondition =
  Condition :: Condition
  ForecastChances :: ForecastChances

definition new_ForecastCondition :: ForecastCondition where
  "new_ForecastCondition = \<lparr>ForecastCondition.Condition = new_Condition, ForecastCondition.ForecastChances = new_ForecastChances\<rparr>"

record ForecastWeather =
  Weather :: Weather
  Condition :: "ForecastCondition list"

definition new_ForecastWeather :: ForecastWeather where
  "new_ForecastWeather = \<lparr>ForecastWeather.Weather = new_Weather, ForecastWeather.Condition = []\<rparr>"

record MarineCondition =
  Condition :: Condition
  SigHeight :: float64
  SwellHeight :: float64
  SwellHeight_ft :: float64
  SwellDir :: nat
  SwellDirCompass :: string
  SwellPeriod :: float64
  WaterTemp :: int
  WaterTemp_F :: int

definition new_MarineCondition :: MarineCondition where
  "new_MarineCondition = \<lparr>MarineCondition.Condition = new_Condition, MarineCondition.SigHeight = zero_float64, MarineCondition.SwellHeight = zero_float64, MarineCondition.SwellHeight_ft = zero_float64, MarineCondition.SwellDir = 0, MarineCondition.SwellDirCompass = '''', MarineCondition.SwellPeriod = zero_float64, MarineCondition.WaterTemp = 0, MarineCondition.WaterTemp_F = 0\<rparr>"

record Tide =
  Time :: Time12
  Height :: float64
  Type :: string

definition new_Tide :: Tide where
  "new_Tide = \<lparr>Tide.Time = 0, Tide.Height = zero_float64, Tide.Type = ''''\<rparr>"

record MarineWeather =
  Weather :: Weather
  Condition :: "MarineCondition list"
  Tide :: "Tide list"

definition new_MarineWeather :: MarineWeather where
  "new_MarineWeather = \<lparr>MarineWeather.Weather = new_Weather, MarineWeather.Condition = [], MarineWeather.Tide = []\<rparr>"

record LevelCond =
  Temp :: int
  TempF :: int
  WindSpeed :: nat
  WindSpeedKnots :: nat
  WindSpeedMeterSec :: nat
  WindSpeedMiles :: nat
  WindDir :: nat
  WindDirCompass :: string
  WeatherCode :: nat
  WeatherDesc :: string
  WeatherIconUrl :: string

definition new_LevelCond :: LevelCond where
  "new_LevelCond = \<lparr>LevelCond.Temp = 0, LevelCond.TempF = 0, LevelCond.WindSpeed = 0, LevelCond.WindSpeedKnots = 0, LevelCond.WindSpeedMeterSec = 0, LevelCond.WindSpeedMiles = 0, LevelCond.WindDir = 0, LevelCond.WindDirCompass = '''', LevelCond.WeatherCode = 0, LevelCond.WeatherDesc = '''', LevelCond.WeatherIconUrl = ''''\<rparr>"

record SkiCondition =
  ForecastChances :: ForecastChances
  Top :: LevelCond
  Mid :: LevelCond
  Bottom :: LevelCond
  CloudCover :: nat
  Visibility :: nat
  VisibilityMiles :: nat
  Pressure :: nat
  PressureInches :: nat
  Snowfall :: float64
  FreezeLevel :: nat
  Humidity :: nat
  Precip :: float64
  PrecipInches :: float64

definition new_SkiCondition :: SkiCondition where
  "new_SkiCondition = \<lparr>SkiCondition.ForecastChances = new_ForecastChances, SkiCondition.Top = new_LevelCond, SkiCondition.Mid = new_LevelCond, SkiCondition.Bottom = new_LevelCond, SkiCondition.CloudCover = 0, SkiCondition.Visibility = 0, SkiCondition.VisibilityMiles = 0, SkiCondition.Pressure = 0, SkiCondition.PressureInches = 0, SkiCondition.Snowfall = zero_float64, SkiCondition.FreezeLevel = 0, SkiCondition.Humidity = 0, SkiCondition.Precip = zero_float64, SkiCondition.PrecipInches = zero_float64\<rparr>"

record SkiWeather =
  Weather :: Weather
  ChanceSnow :: nat
  TotalSnow :: float64
  Top :: TempRange
  Mid :: TempRange
  Bottom :: TempRange
  Condition :: "SkiCondition list"

definition new_SkiWeather :: SkiWeather where
  "new_SkiWeather = \<lparr>SkiWeather.Weather = new_Weather, SkiWeather.ChanceSnow = 0, SkiWeather.TotalSnow = zero_float64, SkiWeather.Top = new_TempRange, SkiWeather.Mid = new_TempRange, SkiWeather.Bottom = new_TempRange, SkiWeather.Condition = []\<rparr>"

record CurrentCondition =
  Condition :: Condition
  TempF :: int
  Temp :: int
  Time :: Time12

definition new_CurrentCondition :: CurrentCondition where
  "new_CurrentCondition = \<lparr>CurrentCondition.Condition = new_Condition, CurrentCondition.TempF = 0, CurrentCondition.Temp = 0, CurrentCondition.Time = 0\<rparr>"

record ClimateAverage =
  Index :: nat
  Name :: string
  MinTemp :: float64
  MinTemp_F :: float64
  MaxTemp :: float64
  MaxTemp_F :: float64
  AbsMinTemp :: float64
  AbsMinTemp_F :: float64
  AbsMaxTemp :: float64
  AbsMaxTemp_F :: float64
  Temp :: float64
  Temp_F :: float64
  MaxWindSpeed :: float64
  MaxWindSpeed_mph :: float64
  MaxWindSpeed_knots :: float64
  MaxWindSpeed_ms :: float64
  WindSpeed :: float64
  WindSpeed_miles :: float64
  WindSpeed_knots :: float64
  WindSpeed_ms :: float64
  WindGust :: float64
  WindGust_miles :: float64
  WindGust_knots :: float64
  WindGust_ms :: float64
  DailyRainfall :: float64
  DailyRainfall_inch :: float64
  MonthlyRainfall :: float64
  MonthlyRainfall_inch :: float64
  Humidity :: float64
  Cloud :: float64
  Visibility :: float64
  Visibility_miles :: float64
  Pressure :: float64
  Pressure_inch :: float64
  DryDays :: nat
  RainDays :: nat
  SnowDays :: nat
  FogDays :: nat
  ThunderDays :: nat
  UVIndex :: nat
  SunHour :: float64

definition new_ClimateAverage :: ClimateAverage where
  "new_ClimateAverage = \<lparr>ClimateAverage.Index = 0, ClimateAverage.Name = '''', ClimateAverage.MinTemp = zero_float64, ClimateAverage.MinTemp_F = zero_float64, ClimateAverage.MaxTemp = zero_float64, ClimateAverage.MaxTemp_F = zero_float64, ClimateAverage.AbsMinTemp = zero_float64, ClimateAverage.AbsMinTemp_F = zero_float64, ClimateAverage.AbsMaxTemp = zero_float64, ClimateAverage.AbsMaxTemp_F = zero_float64, ClimateAverage.Temp = zero_float64, ClimateAverage.Temp_F = zero_float64, ClimateAverage.MaxWindSpeed = zero_float64, ClimateAverage.MaxWindSpeed_mph = zero_float64, ClimateAverage.MaxWindSpeed_knots = zero_float64, ClimateAverage.MaxWindSpeed_ms = zero_float64, ClimateAverage.WindSpeed = zero_float64, ClimateAverage.WindSpeed_miles = zero_float64, ClimateAverage.WindSpeed_knots = zero_float64, ClimateAverage.WindSpeed_ms = zero_float64, ClimateAverage.WindGust = zero_float64, ClimateAverage.WindGust_miles = zero_float64, ClimateAverage.WindGust_knots = zero_float64, ClimateAverage.WindGust_ms = zero_float64, ClimateAverage.DailyRainfall = zero_float64, ClimateAverage.DailyRainfall_inch = zero_float64, ClimateAverage.MonthlyRainfall = zero_float64, ClimateAverage.MonthlyRainfall_inch = zero_float64, ClimateAverage.Humidity = zero_float64, ClimateAverage.Cloud = zero_float64, ClimateAverage.Visibility = zero_float64, ClimateAverage.Visibility_miles = zero_float64, ClimateAverage.Pressure = zero_float64, ClimateAverage.Pressure_inch = zero_float64, ClimateAverage.DryDays = 0, ClimateAverage.RainDays = 0, ClimateAverage.SnowDays = 0, ClimateAverage.FogDays = 0, ClimateAverage.ThunderDays = 0, ClimateAverage.UVIndex = 0, ClimateAverage.SunHour = zero_float64\<rparr>"

record Local =
  Area :: Area
  Climate :: "ClimateAverage list"
  Current :: CurrentCondition
  Request :: Request
  Weather :: "ForecastWeather list"
  Error :: "string option"

definition new_Local :: Local where
  "new_Local = \<lparr>Local.Area = new_Area, Local.Climate = [], Local.Current = new_CurrentCondition, Local.Request = new_Request, Local.Weather = [], Local.Error = None\<rparr>"

record Marine =
  Request :: Request
  Area :: Area
  Weather :: "MarineWeather list"
  Error :: "string option"

definition new_Marine :: Marine where
  "new_Marine = \<lparr>Marine.Request = new_Request, Marine.Area = new_Area, Marine.Weather = [], Marine.Error = None\<rparr>"

record PastLocal =
  Request :: Request
  Area :: Area
  Weather :: "Weather list"
  Error :: "string option"

definition new_PastLocal :: PastLocal where
  "new_PastLocal = \<lparr>PastLocal.Request = new_Request, PastLocal.Area = new_Area, PastLocal.Weather = [], PastLocal.Error = None\<rparr>"

record Ski =
  Request :: Request
  Area :: Area
  Weather :: "SkiWeather list"
  Error :: "string option"

definition new_Ski :: Ski where
  "new_Ski = \<lparr>Ski.Request = new_Request, Ski.Area = new_Area, Ski.Weather = [], Ski.Error = None\<rparr>"

record TimeZone =
  Request :: Request
  Area :: Area
  Zone :: Zone
  Error :: "string option"

definition new_TimeZone :: TimeZone where
  "new_TimeZone = \<lparr>TimeZone.Request = new_Request, TimeZone.Area = new_Area, TimeZone.Zone = new_Zone, TimeZone.Error = None\<rparr>"

record Search =
  Area :: "Area list"
  Error :: "string option"

definition new_Search :: Search where
  "new_Search = \<lparr>Search.Area = [], Search.Error = None\<rparr>"

type_synonym PastMarine = Marine

definition new_PastMarine :: PastMarine where
  "new_PastMarine = new_Marine"

subsection \<open>Decoding the temperature range of a day entry\<close>

text \<open>
  \<^verbatim>\<open>encoding/xml\<close> fills a struct from the child elements of its element, in document
  order: a child whose name is the \<^verbatim>\<open>xml:"..."\<close> tag of a field is decoded into that
  field, any other child is skipped, and the first failure (of the tokenizer, or of the
  decoder of any field) ends the decoding with that error, the fields stored so far
  staying as they are. \<^verbatim>\<open>Weather\<close> embeds \<^verbatim>\<open>TempRange\<close>, and every kind of day entry
  (\<^verbatim>\<open>Weather\<close>, \<^verbatim>\<open>ForecastWeather\<close>, \<^verbatim>\<open>MarineWeather\<close>, \<^verbatim>\<open>SkiWeather\<close>) embeds
  \<^verbatim>\<open>Weather\<close>, so the four temperature fields are matched against the children of the
  day's \<^verbatim>\<open>weather\<close> element.

  \<^verbatim>\<open>copyValue\<close> stores the character data of a child in an \<^verbatim>\<open>int\<close> field: empty data
  is 0, anything else goes through
  \<^verbatim>\<open>strconv.ParseInt(strings.TrimSpace(src), 10, 64)\<close>.
\<close>

definition copyValue_int :: "string \<Rightarrow> error + int" where
  "copyValue_int src =
     (if src = [] then Inr 0
      else
        (case ParseInt_base10 (TrimSpace src) 64 of
           (itmp, Some err) \<Rightarrow> Inl err
         | (itmp, None) \<Rightarrow> Inr itmp))"

text \<open>
  What the decoder meets inside the day's element: a child element with its name and
  content, or a failure of the tokenizer (malformed markup). \<open>chardata c\<close> is what
  reading the inside of a child as a scalar gives: an error of the tokenizer, or the
  character data of the child.
\<close>

datatype 'c token = Child string 'c | Broken error

definition unmarshal_int :: "('c \<Rightarrow> error + string) \<Rightarrow> 'c \<Rightarrow> error + int" where
  "unmarshal_int chardata c =
     (case chardata c of
        Inl err \<Rightarrow> Inl err
      | Inr src \<Rightarrow> copyValue_int src)"

text \<open>
  The struct decoder on a day entry. The entry is its embedded \<^verbatim>\<open>TempRange\<close> together
  with its other fields, \<open>rest\<close>. A child named after one of the four temperature tags
  is decoded into that field. Every other child goes to \<open>sibling\<close>, which stands for the
  decoders of the other fields (astronomy, date, the floating-point fields, the hourly
  conditions, ...) and for the skipping of unknown elements: it works on the other
  fields, and it may fail.
\<close>

fun unmarshal_day_entry ::
  "('c \<Rightarrow> error + string) \<Rightarrow> (string \<Rightarrow> 'c \<Rightarrow> 'rest \<Rightarrow> 'rest \<times> error option) \<Rightarrow> 'c token list
     \<Rightarrow> TempRange \<times> 'rest \<Rightarrow> (TempRange \<times> 'rest) \<times> error option" where
  "unmarshal_day_entry chardata sibling [] (r, rest) = ((r, rest), None)"
| "unmarshal_day_entry chardata sibling (Broken err # tokens) (r, rest) = ((r, rest), Some err)"
| "unmarshal_day_entry chardata sibling (Child name c # tokens) (r, rest) =
     (if name = ''maxtempC'' then
        (case unmarshal_int chardata c of
           Inl err \<Rightarrow> ((r, rest), Some err)
         | Inr v \<Rightarrow> unmarshal_day_entry chardata sibling tokens (r\<lparr>TempRange.MaxTemp := v\<rparr>, rest))
      else if name = ''maxtempF'' then
        (case unmarshal_int chardata c of
           Inl err \<Rightarrow> ((r, rest), Some err)
         | Inr v \<Rightarrow> unmarshal_day_entry chardata sibling tokens (r\<lparr>TempRange.MaxTempF := v\<rparr>, rest))
      else if name = ''mintempC'' then
        (case unmarshal_int chardata c of
           Inl err \<Rightarrow> ((r, rest), Some err)
         | Inr v \<Rightarrow> unmarshal_day_entry chardata sibling tokens (r\<lparr>TempRange.MinTemp := v\<rparr>, rest))
      else if name = ''mintempF'' then
        (case unmarshal_int chardata c of
           Inl err \<Rightarrow> ((r, rest), Some err)
         | Inr v \<Rightarrow> unmarshal_day_entry chardata sibling tokens (r\<lparr>TempRange.MinTempF := v\<rparr>, rest))
      else
        (case sibling name c rest of
           (rest', Some err) \<Rightarrow> ((r, rest'), Some err)
         | (rest', None) \<Rightarrow> unmarshal_day_entry chardata sibling tokens (r, rest')))"

subsection \<open>The client\<close>

record WWO =
  Key :: string
  Insecure :: bool

text \<open>
  \<^verbatim>\<open>url.Values\<close> maps a key to a list of values; \<^verbatim>\<open>Set\<close> replaces the list by a single
  value. Of the \<^verbatim>\<open>url.URL\<close> only the fields that \<^verbatim>\<open>fetch\<close> fills are kept.
  \<^verbatim>\<open>RawQuery\<close> is \<^verbatim>\<open>values.Encode()\<close>, the serialisation of the \<^verbatim>\<open>url.Values\<close>; the
  model keeps the values themselves.
\<close>

type_synonym Values = "string \<rightharpoonup> string list"

definition Values_Set :: "Values \<Rightarrow> string \<Rightarrow> string \<Rightarrow> Values" where
  "Values_Set values k v = values(k \<mapsto> [v])"

record URL =
  Scheme :: string
  Host :: string
  Path :: string
  RawQuery :: Values

text \<open>
  A Go \<^verbatim>\<open>map[string]string\<close> is \<open>None\<close> when nil and \<open>Some m\<close> otherwise. The loop
  \<^verbatim>\<open>for k, v := range query { values.Set(k, v) }\<close> visits every entry once, in an order
  the runtime chooses; the entries have distinct keys, so the outcome is the same for
  every order (\<open>range_Set_any_order\<close> below) and is written down directly. Ranging
  over a nil map does nothing.
\<close>

type_synonym gomap = "string \<rightharpoonup> string"

definition range_Set :: "gomap option \<Rightarrow> Values \<Rightarrow> Values" where
  "range_Set query values =
     (case query of
        None \<Rightarrow> values
      | Some m \<Rightarrow> (\<lambda>k. case m k of Some v \<Rightarrow> Some [v] | None \<Rightarrow> values k))"

text \<open>The URL that \<^verbatim>\<open>fetch\<close> builds before it calls \<^verbatim>\<open>http.Get\<close>.\<close>

definition fetch_URL :: "WWO \<Rightarrow> string \<Rightarrow> gomap option \<Rightarrow> URL" where
  "fetch_URL w service query =
     (let values = Map.empty;
          values = Values_Set values ''key'' (Key w);
          values = range_Set query values;
          values = Values_Set values ''format'' ''xml''
      in \<lparr>Scheme = (if Insecure w then ''http'' else ''https''),
          Host = ''api.worldweatheronline.com'',
          Path = ''/premium/v1/'' @ service @ ''.ashx'',
          RawQuery = values\<rparr>)"

text \<open>
  \<^verbatim>\<open>fetch\<close>. The transport \<open>http_Get\<close> stands for \<^verbatim>\<open>http.Get(u.String())\<close> followed by
  \<^verbatim>\<open>ioutil.ReadAll(resp.Body)\<close>: an error from either, or the body. The result is the
  list of outbound requests made (always the one) and what the Go function returns.
\<close>

definition fetch :: "(URL \<Rightarrow> error + string) \<Rightarrow> WWO \<Rightarrow> string \<Rightarrow> gomap option
                       \<Rightarrow> URL list \<times> (error + string)" where
  "fetch http_Get w service query =
     (let u = fetch_URL w service query
      in ([u], http_Get u))"

text \<open>
  The \<^verbatim>\<open>Get...\<close> operations. A Go map is a reference: the two assignments at the top
  change the caller's map, and assigning into a nil map panics. The outcome of a call is
  a panic, or a return with: the caller's map after the call, the outbound requests
  made, the report pointer (\<open>None\<close> is nil) and the error (\<open>None\<close> is nil).
  \<open>xml_Unmarshal text o\<close> stands for \<^verbatim>\<open>xml.Unmarshal(text, o)\<close>: it takes the freshly
  allocated report and gives back the report as the decoder left it, and the error.
\<close>

record 'r returned =
  options :: gomap
  requests :: "URL list"
  report :: "'r option"
  err :: "error option"

datatype 'r outcome = is_Panic: Panic (reason: string) | Return (returned: "'r returned")

definition GetLocal :: "(URL \<Rightarrow> error + string) \<Rightarrow> (string \<Rightarrow> Local \<Rightarrow> Local \<times> error option)
                       \<Rightarrow> WWO \<Rightarrow> string \<Rightarrow> gomap option \<Rightarrow> Local outcome" where
  "GetLocal http_Get xml_Unmarshal w location opt =
     (case opt of
        None \<Rightarrow> Panic ''assignment to entry in nil map''
      | Some m \<Rightarrow>
          (let m = m(''q'' \<mapsto> location);
               m = m(''date_format'' \<mapsto> '''');
               (reqs, res) = fetch http_Get w ''weather'' (Some m)
           in (case res of
                 Inl e \<Rightarrow> Return \<lparr>options = m, requests = reqs, report = None, err = Some e\<rparr>
               | Inr text \<Rightarrow>
                   (let (o', e) = xml_Unmarshal text new_Local
                    in (if e \<noteq> None
                          then Return \<lparr>options = m, requests = reqs, report = Some o', err = e\<rparr>
                        else
                          (case Local.Error o' of
                             Some msg \<Rightarrow>
                               Return \<lparr>options = m, requests = reqs, report = Some o',
                                       err = Some (errors_New msg)\<rparr>
                           | None \<Rightarrow>
                               Return \<lparr>options = m, requests = reqs, report = Some o',
                                       err = None\<rparr>))))))"

definition GetMarine :: "(URL \<Rightarrow> error + string) \<Rightarrow> (string \<Rightarrow> Marine \<Rightarrow> Marine \<times> error option)
                       \<Rightarrow> WWO \<Rightarrow> string \<Rightarrow> gomap option \<Rightarrow> Marine outcome" where
  "GetMarine http_Get xml_Unmarshal w location opt =
     (case opt of
        None \<Rightarrow> Panic ''assignment to entry in nil map''
      | Some m \<Rightarrow>
          (let m = m(''q'' \<mapsto> location);
               m = m(''date_format'' \<mapsto> '''');
               (reqs, res) = fetch http_Get w ''marine'' (Some m)
           in (case res of
                 Inl e \<Rightarrow> Return \<lparr>options = m, requests = reqs, report = None, err = Some e\<rparr>
               | Inr text \<Rightarrow>
                   (let (o', e) = xml_Unmarshal text new_Marine
                    in (if e \<noteq> None
                          then Return \<lparr>options = m, requests = reqs, report = Some o', err = e\<rparr>
                        else
                          (case Marine.Error o' of
                             Some msg \<Rightarrow>
                               Return \<lparr>options = m, requests = reqs, report = Some o',
                                       err = Some (errors_New msg)\<rparr>
                           | None \<Rightarrow>
                               Return \<lparr>options = m, requests = reqs, report = Some o',
                                       err = None\<rparr>))))))"

definition GetSki :: "(URL \<Rightarrow> error + string) \<Rightarrow> (string \<Rightarrow> Ski \<Rightarrow> Ski \<times> error option)
                       \<Rightarrow> WWO \<Rightarrow> string \<Rightarrow> gomap option \<Rightarrow> Ski outcome" where
  "GetSki http_Get xml_Unmarshal w location opt =
     (case opt of
        None \<Rightarrow> Panic ''assignment to entry in nil map''
      | Some m \<Rightarrow>
          (let m = m(''q'' \<mapsto> location);
               m = m(''date_format'' \<mapsto> '''');
               (reqs, res) = fetch http_Get w ''ski'' (Some m)
           in (case res of
                 Inl e \<Rightarrow> Return \<lparr>options = m, requests = reqs, report = None, err = Some e\<rparr>
               | Inr text \<Rightarrow>
                   (let (o', e) = xml_Unmarshal text new_Ski
                    in (if e \<noteq> None
                          then Return \<lparr>options = m, requests = reqs, report = Some o', err = e\<rparr>
                        else
                          (case Ski.Error o' of
                             Some msg \<Rightarrow>
                               Return \<lparr>options = m, requests = reqs, report = Some o',
                                       err = Some (errors_New msg)\<rparr>
                           | None \<Rightarrow>
                               Return \<lparr>options = m, requests = reqs, report = Some o',
                                       err = None\<rparr>))))))"

definition GetPastLocal :: "(URL \<Rightarrow> error + string) \<Rightarrow> (string \<Rightarrow> PastLocal \<Rightarrow> PastLocal \<times> error option)
                       \<Rightarrow> WWO \<Rightarrow> string \<Rightarrow> gomap option \<Rightarrow> PastLocal outcome" where
  "GetPastLocal http_Get xml_Unmarshal w location opt =
     (case opt of
        None \<Rightarrow> Panic ''assignment to entry in nil map''
      | Some m \<Rightarrow>
          (let m = m(''q'' \<mapsto> location);
               m = m(''date_format'' \<mapsto> '''');
               (reqs, res) = fetch http_Get w ''past-weather'' (Some m)
           in (case res of
                 Inl e \<Rightarrow> Return \<lparr>options = m, requests = reqs, report = None, err = Some e\<rparr>
               | Inr text \<Rightarrow>
                   (let (o', e) = xml_Unmarshal text new_PastLocal
                    in (if e \<noteq> None
                          then Return \<lparr>options = m, requests = reqs, report = Some o', err = e\<rparr>
                        else
                          (case PastLocal.Error o' of
                             Some msg \<Rightarrow>
                               Return \<lparr>options = m, requests = reqs, report = Some o',
                                       err = Some (errors_New msg)\<rparr>
                           | None \<Rightarrow>
                               Return \<lparr>options = m, requests = reqs, report = Some o',
                                       err = None\<rparr>))))))"

definition GetPastMarine :: "(URL \<Rightarrow> error + string) \<Rightarrow> (string \<Rightarrow> PastMarine \<Rightarrow> PastMarine \<times> error option)
                       \<Rightarrow> WWO \<Rightarrow> string \<Rightarrow> gomap option \<Rightarrow> PastMarine outcome" where
  "GetPastMarine http_Get xml_Unmarshal w location opt =
     (case opt of
        None \<Rightarrow> Panic ''assignment to entry in nil map''
      | Some m \<Rightarrow>
          (let m = m(''q'' \<mapsto> location);
               m = m(''date_format'' \<mapsto> '''');
               (reqs, res) = fetch http_Get w ''past-marine'' (Some m)
           in (case res of
                 Inl e \<Rightarrow> Return \<lparr>options = m, requests = reqs, report = None, err = Some e\<rparr>
               | Inr text \<Rightarrow>
                   (let (o', e) = xml_Unmarshal text new_PastMarine
                    in (if e \<noteq> None
                          then Return \<lparr>options = m, requests = reqs, report = Some o', err = e\<rparr>
                        else
                          (case Marine.Error o' of
                             Some msg \<Rightarrow>
                               Return \<lparr>options = m, requests = reqs, report = Some o',
                                       err = Some (errors_New msg)\<rparr>
                           | None \<Rightarrow>
                               Return \<lparr>options = m, requests = reqs, report = Some o',
                                       err = None\<rparr>))))))"

definition GetSearch :: "(URL \<Rightarrow> error + string) \<Rightarrow> (string \<Rightarrow> Search \<Rightarrow> Search \<times> error option)
                       \<Rightarrow> WWO \<Rightarrow> string \<Rightarrow> gomap option \<Rightarrow> Search outcome" where
  "GetSearch http_Get xml_Unmarshal w location opt =
     (case opt of
        None \<Rightarrow> Panic ''assignment to entry in nil map''
      | Some m \<Rightarrow>
          (let m = m(''q'' \<mapsto> location);
               m = m(''date_format'' \<mapsto> '''');
               (reqs, res) = fetch http_Get w ''search'' (Some m)
           in (case res of
                 Inl e \<Rightarrow> Return \<lparr>options = m, requests = reqs, report = None, err = Some e\<rparr>
               | Inr text \<Rightarrow>
                   (let (o', e) = xml_Unmarshal text new_Search
                    in (if e \<noteq> None
                          then Return \<lparr>options = m, requests = reqs, report = Some o', err = e\<rparr>
                        else
                          (case Search.Error o' of
                             Some msg \<Rightarrow>
                               Return \<lparr>options = m, requests = reqs, report = Some o',
                                       err = Some (errors_New msg)\<rparr>
                           | None \<Rightarrow>
                               Return \<lparr>options = m, requests = reqs, report = Some o',
                                       err = None\<rparr>))))))"

definition GetTimeZone :: "(URL \<Rightarrow> error + string) \<Rightarrow> (string \<Rightarrow> TimeZone \<Rightarrow> TimeZone \<times> error option)
                       \<Rightarrow> WWO \<Rightarrow> string \<Rightarrow> gomap option \<Rightarrow> TimeZone outcome" where
  "GetTimeZone http_Get xml_Unmarshal w location opt =
     (case opt of
        None \<Rightarrow> Panic ''assignment to entry in nil map''
      | Some m \<Rightarrow>
          (let m = m(''q'' \<mapsto> location);
               m = m(''date_format'' \<mapsto> '''');
               (reqs, res) = fetch http_Get w ''tz'' (Some m)
           in (case res of
                 Inl e \<Rightarrow> Return \<lparr>options = m, requests = reqs, report = None, err = Some e\<rparr>
               | Inr text \<Rightarrow>
                   (let (o', e) = xml_Unmarshal text new_TimeZone
                    in (if e \<noteq> None
                          then Return \<lparr>options = m, requests = reqs, report = Some o', err = e\<rparr>
                        else
                          (case TimeZone.Error o' of
                             Some msg \<Rightarrow>
                               Return \<lparr>options = m, requests = reqs, report = Some o',
                                       err = Some (errors_New msg)\<rparr>
                           | None \<Rightarrow>
                               Return \<lparr>options = m, requests = reqs, report = Some o',
                                       err = None\<rparr>))))))"

subsection \<open>Notions used in the statements\<close>

text \<open>The number a string of decimal digits denotes (leading zeros allowed).\<close>

definition decimal_value :: "string \<Rightarrow> nat" where
  "decimal_value ds = foldl (\<lambda>n c. n * 10 + digitVal c) 0 ds"

text \<open>The last \<open>k\<close> decimal digits of \<open>n\<close>, most significant first.\<close>

fun pad :: "nat \<Rightarrow> nat \<Rightarrow> string" where
  "pad 0 n = []"
| "pad (Suc k) n = pad k (n div 10) @ [char_of (48 + n mod 10)]"

text \<open>
  Collaborators for the concrete instances: a transport that delivers a fixed payload
  and one that fails, and, for every report type, a decoder that stores a given
  error-message node and returns a given error.
\<close>

definition transport_delivers :: "string \<Rightarrow> URL \<Rightarrow> error + string" where
  "transport_delivers payload u = Inr payload"

definition transport_fails :: "URL \<Rightarrow> error + string" where
  "transport_fails u = Inl (External ''connection refused'')"

definition decoder_Local :: "string option \<Rightarrow> error option \<Rightarrow> string \<Rightarrow> Local \<Rightarrow> Local \<times> error option" where
  "decoder_Local msg e payload o' = (o'\<lparr>Local.Error := msg\<rparr>, e)"

definition decoder_Marine :: "string option \<Rightarrow> error option \<Rightarrow> string \<Rightarrow> Marine \<Rightarrow> Marine \<times> error option" where
  "decoder_Marine msg e payload o' = (o'\<lparr>Marine.Error := msg\<rparr>, e)"

definition decoder_Ski :: "string option \<Rightarrow> error option \<Rightarrow> string \<Rightarrow> Ski \<Rightarrow> Ski \<times> error option" where
  "decoder_Ski msg e payload o' = (o'\<lparr>Ski.Error := msg\<rparr>, e)"

definition decoder_PastLocal :: "string option \<Rightarrow> error option \<Rightarrow> string \<Rightarrow> PastLocal \<Rightarrow> PastLocal \<times> error option" where
  "decoder_PastLocal msg e payload o' = (o'\<lparr>PastLocal.Error := msg\<rparr>, e)"

definition decoder_Search :: "string option \<Rightarrow> error option \<Rightarrow> string \<Rightarrow> Search \<Rightarrow> Search \<times> error option" where
  "decoder_Search msg e payload o' = (o'\<lparr>Search.Error := msg\<rparr>, e)"

definition decoder_TimeZone :: "string option \<Rightarrow> error option \<Rightarrow> string \<Rightarrow> TimeZone \<Rightarrow> TimeZone \<times> error option" where
  "decoder_TimeZone msg e payload o' = (o'\<lparr>TimeZone.Error := msg\<rparr>, e)"

text \<open>
  What the decoder of a day entry leaves in a temperature field when it succeeds, told
  from the children of the field's own name alone: the integer of the last such child,
  or the field's previous value when there is none.
\<close>

fun field_from :: "('c \<Rightarrow> error + string) \<Rightarrow> string \<Rightarrow> 'c token list \<Rightarrow> int \<Rightarrow> int" where
  "field_from chardata tag [] v = v"
| "field_from chardata tag (Broken e # tokens) v = v"
| "field_from chardata tag (Child name c # tokens) v =
     (if name = tag then
        (case unmarshal_int chardata c of
           Inl e \<Rightarrow> v
         | Inr x \<Rightarrow> field_from chardata tag tokens x)
      else field_from chardata tag tokens v)"

text \<open>
  Concrete day entries: children whose content is plain character data, and a sibling
  decoder for the field \<^verbatim>\<open>UVIndex uint `xml:"uvIndex"`\<close> (\<^verbatim>\<open>copyValue\<close> on a \<^verbatim>\<open>uint\<close>:
  empty data is 0, anything else goes through \<^verbatim>\<open>strconv.ParseUint\<close> after
  \<^verbatim>\<open>TrimSpace\<close>) that skips every other child.
\<close>

definition plain_chardata :: "string \<Rightarrow> error + string" where
  "plain_chardata c = Inr c"

definition sibling_uvIndex :: "string \<Rightarrow> string \<Rightarrow> nat \<Rightarrow> nat \<times> error option" where
  "sibling_uvIndex name c uv =
     (if name = ''uvIndex'' then
        (if c = [] then (0, None)
         else
           (case ParseUint_base10 (TrimSpace c) 64 of
              (utmp, Some e) \<Rightarrow> (uv, Some e)
            | (utmp, None) \<Rightarrow> (utmp, None)))
      else (uv, None))"

declare digits.simps [simp del]
declare skip.simps [simp del]
declare TrimLeft_IsSpace.simps [simp del]
declare TrimRight_IsSpace.simps [simp del]

section \<open>Properties\<close>

subsection \<open>Decimal digit strings\<close>

lemma foldl_decimal_mono:
  "n \<le> foldl (\<lambda>n c. n * 10 + digitVal c) n cs"
proof (induction cs arbitrary: n)
  case Nil
  then show ?case by simp
next
  case (Cons c cs)
  have "n \<le> n * 10 + digitVal c" by simp
  also have "\<dots> \<le> foldl (\<lambda>n c. n * 10 + digitVal c) (n * 10 + digitVal c) cs"
    by (rule Cons.IH)
  finally show ?case by simp
qed

lemma ParseUint_loop_digits:
  assumes "\<forall>c \<in> set cs. isDigitChar c"
    and "foldl (\<lambda>n c. n * 10 + digitVal c) n cs \<le> maxVal"
    and "maxVal < 2 ^ 64"
  shows "ParseUint_loop s0 maxVal n cs = (foldl (\<lambda>n c. n * 10 + digitVal c) n cs, None)"
  using assms
proof (induction cs arbitrary: n)
  case Nil
  then show ?case by simp
next
  case (Cons c cs)
  let ?n1 = "n * 10 + digitVal c"
  have le: "?n1 \<le> maxVal"
    using foldl_decimal_mono [of ?n1 cs] Cons.prems(2) by simp
  then have small: "?n1 < 2 ^ 64"
    using Cons.prems(3) by simp
  then have cut: "\<not> n \<ge> maxUint64 div 10 + 1"
    by (simp add: maxUint64_def)
  have w: "wrap64 ?n1 = ?n1"
    using small by (simp add: wrap64_def)
  have dig: "isDigitChar c"
    using Cons.prems(1) by simp
  have rest: "ParseUint_loop s0 maxVal ?n1 cs = (foldl (\<lambda>n c. n * 10 + digitVal c) ?n1 cs, None)"
    using Cons.IH [of ?n1] Cons.prems by simp
  show ?case
    using dig cut w le rest by (simp add: Let_def)
qed

lemma ParseUint_base10_digits:
  assumes "ds \<noteq> []" and "\<forall>c \<in> set ds. isDigitChar c" and "decimal_value ds < 2 ^ bitSize"
    and "bitSize \<le> 64"
  shows "ParseUint_base10 ds bitSize = (decimal_value ds, None)"
proof -
  have "(2::nat) ^ bitSize - 1 < 2 ^ bitSize"
    by simp
  also have "\<dots> \<le> 2 ^ 64"
    using assms(4) by (rule power_increasing) simp
  finally have "(2::nat) ^ bitSize - 1 < 2 ^ 64" .
  moreover have "decimal_value ds \<le> 2 ^ bitSize - 1"
    using assms(3) by simp
  ultimately show ?thesis
    using assms(1,2) ParseUint_loop_digits [of ds 0 "2 ^ bitSize - 1" ds]
    by (simp add: ParseUint_base10_def decimal_value_def)
qed

subsection \<open>TimeHMM\<close>

text \<open>
  C3. For every time encoding of one to four decimal digits whose value \<open>v\<close> lies in
  \<open>[0, 2359]\<close> with \<open>v mod 100 < 60\<close>, \<open>TimeHMM.UnmarshalXML\<close> stores the duration
  \<open>(v div 100)\<close> hours plus \<open>(v mod 100)\<close> minutes and returns no error.
\<close>

theorem TimeHMM_decodes_hours_minutes:
  assumes "ds \<noteq> []" and "length ds \<le> 4" and "\<forall>c \<in> set ds. isDigitChar c"
    and "decimal_value ds \<le> 2359" and "decimal_value ds mod 100 < 60"
  shows "TimeHMM_UnmarshalXML (Inr ds) t =
           (int (decimal_value ds div 100) * Hour + int (decimal_value ds mod 100) * Minute, None)"
proof -
  have "decimal_value ds < 2 ^ 12"
    using assms(4) by simp
  then have "ParseUint_base10 ds 12 = (decimal_value ds, None)"
    using assms(1,3) by (intro ParseUint_base10_digits) simp_all
  then show ?thesis
    by (simp add: TimeHMM_UnmarshalXML_def)
qed

theorem TimeHMM_decodes_hours_minutes_witness:
  "TimeHMM_UnmarshalXML (Inr ''930'') 0 = (9 * Hour + 30 * Minute, None)
   \<and> TimeHMM_UnmarshalXML (Inr ''0'') 0 = (0, None)
   \<and> TimeHMM_UnmarshalXML (Inr ''2359'') 0 = (23 * Hour + 59 * Minute, None)"
  using TimeHMM_decodes_hours_minutes [of "''930''" 0]
    TimeHMM_decodes_hours_minutes [of "''0''" 0]
    TimeHMM_decodes_hours_minutes [of "''2359''" 0]
  by (simp add: decimal_value_def isDigitChar_def digitVal_def)

subsection \<open>Date\<close>

lemma char_of_48: "char_of (48::nat) = CHR ''0''"
  by (simp add: char_of_eq_iff)

lemma pad_zero: "pad k 0 = replicate k CHR ''0''"
  by (induction k) (simp_all add: replicate_append_same char_of_48)

lemma digits_pad:
  "n < 10 ^ Suc k \<Longrightarrow>
     replicate (Suc k - length (digits n)) CHR ''0'' @ digits n = pad (Suc k) n"
proof (induction k arbitrary: n)
  case 0
  then have "digits n = [char_of (48 + n)]"
    by (subst digits.simps) simp
  with 0 show ?case by simp
next
  case (Suc k)
  show ?case
  proof (cases "n < 10")
    case True
    then have d: "digits n = [char_of (48 + n)]"
      by (subst digits.simps) simp
    from True show ?thesis
      by (simp add: d pad_zero replicate_append_same char_of_48)
  next
    case False
    then have d: "digits n = digits (n div 10) @ [char_of (48 + n mod 10)]"
      by (subst digits.simps) simp
    have "n div 10 < 10 ^ Suc k"
      using Suc.prems by simp
    then have "replicate (Suc k - length (digits (n div 10))) CHR ''0'' @ digits (n div 10)
                 = pad (Suc k) (n div 10)"
      by (rule Suc.IH)
    then show ?thesis
      by (simp add: d)
  qed
qed

lemma digitVal_less: "isDigitChar c \<Longrightarrow> digitVal c < 10"
  by (auto simp: isDigitChar_def digitVal_def)

lemma char_of_digitVal: "isDigitChar c \<Longrightarrow> char_of (48 + digitVal c) = c"
  by (simp add: isDigitChar_def digitVal_def)

lemma appendInt_nat:
  assumes "n < 10 ^ Suc k"
  shows "appendInt (int n) (Suc k) = pad (Suc k) n"
  using digits_pad [OF assms] by (simp add: appendInt_def Let_def)

lemma div_mod_10:
  fixes d x :: nat
  shows "d < 10 \<Longrightarrow> (x * 10 + d) div 10 = x" and "d < 10 \<Longrightarrow> (x * 10 + d) mod 10 = d"
  by simp_all

lemma pad_2:
  assumes "isDigitChar a" "isDigitChar b"
  shows "pad (Suc (Suc 0)) (digitVal a * 10 + digitVal b) = [a, b]"
proof -
  have b: "digitVal b < 10"
    using assms(2) by (rule digitVal_less)
  have "(digitVal a * 10 + digitVal b) div 10 = digitVal a"
    and "(digitVal a * 10 + digitVal b) mod 10 = digitVal b"
    using b by simp_all
  moreover have "digitVal a mod 10 = digitVal a"
    using digitVal_less [OF assms(1)] by simp
  ultimately show ?thesis
    using assms by (simp add: char_of_digitVal)
qed

lemma appendInt_2:
  assumes "isDigitChar a" "isDigitChar b"
  shows "appendInt (int (digitVal a) * 10 + int (digitVal b)) 2 = [a, b]"
proof -
  let ?n = "digitVal a * 10 + digitVal b"
  have lt: "?n < 10 ^ Suc (Suc 0)"
    using digitVal_less [OF assms(1)] digitVal_less [OF assms(2)] by simp
  have "appendInt (int ?n) (Suc (Suc 0)) = [a, b]"
    using appendInt_nat [OF lt] pad_2 [OF assms] by simp
  moreover have "int (digitVal a) * 10 + int (digitVal b) = int ?n"
    by simp
  ultimately show ?thesis
    by (simp only: numeral_2_eq_2)
qed

lemma pad_4:
  assumes "isDigitChar a" "isDigitChar b" "isDigitChar c" "isDigitChar d"
  shows "pad (Suc (Suc (Suc (Suc 0)))) (((digitVal a * 10 + digitVal b) * 10 + digitVal c) * 10 + digitVal d)
           = [a, b, c, d]"
proof -
  let ?ab = "digitVal a * 10 + digitVal b"
  let ?abc = "?ab * 10 + digitVal c"
  let ?n = "?abc * 10 + digitVal d"
  have n: "?n div 10 = ?abc" "?n mod 10 = digitVal d"
    using digitVal_less [OF assms(4)] by (rule div_mod_10)+
  have abc: "?abc div 10 = ?ab" "?abc mod 10 = digitVal c"
    using digitVal_less [OF assms(3)] by (rule div_mod_10)+
  have "pad (Suc (Suc (Suc (Suc 0)))) ?n = pad (Suc (Suc (Suc 0))) ?abc @ [d]"
    unfolding pad.simps(2) [of "Suc (Suc (Suc 0))" ?n] n
    by (simp only: char_of_digitVal [OF assms(4)])
  also have "pad (Suc (Suc (Suc 0))) ?abc = pad (Suc (Suc 0)) ?ab @ [c]"
    unfolding pad.simps(2) [of "Suc (Suc 0)" ?abc] abc
    by (simp only: char_of_digitVal [OF assms(3)])
  finally have "pad (Suc (Suc (Suc (Suc 0)))) ?n = pad (Suc (Suc 0)) ?ab @ [c, d]"
    by simp
  then show ?thesis
    using pad_2 [OF assms(1,2)] by simp
qed

lemma appendInt_4:
  assumes "isDigitChar a" "isDigitChar b" "isDigitChar c" "isDigitChar d"
  shows "appendInt (int (((digitVal a * 10 + digitVal b) * 10 + digitVal c) * 10 + digitVal d)) 4
           = [a, b, c, d]"
proof -
  let ?n = "((digitVal a * 10 + digitVal b) * 10 + digitVal c) * 10 + digitVal d"
  have lt: "?n < 10 ^ Suc (Suc (Suc (Suc 0)))"
    using digitVal_less [OF assms(1)] digitVal_less [OF assms(2)]
      digitVal_less [OF assms(3)] digitVal_less [OF assms(4)] by simp
  have "appendInt (int ?n) (Suc (Suc (Suc (Suc 0)))) = [a, b, c, d]"
    using appendInt_nat [OF lt] pad_4 [OF assms] by simp
  moreover have "(4::nat) = Suc (Suc (Suc (Suc 0)))"
    by simp
  ultimately show ?thesis
    by (simp only:)
qed

lemma atoi_4:
  assumes "isDigitChar a" "isDigitChar b" "isDigitChar c" "isDigitChar d"
  shows "atoi [a, b, c, d] = Some (int (((digitVal a * 10 + digitVal b) * 10 + digitVal c) * 10 + digitVal d))"
proof -
  have neq: "a \<noteq> CHR ''-''" "a \<noteq> CHR ''+''"
    using assms(1) by (auto simp: isDigitChar_def)
  have "leadingInt 0 [a, b, c, d]
          = Some (((digitVal a * 10 + digitVal b) * 10 + digitVal c) * 10 + digitVal d, [])"
    using assms digitVal_less [OF assms(1)] digitVal_less [OF assms(2)]
      digitVal_less [OF assms(3)] digitVal_less [OF assms(4)]
    by (simp add: Let_def)
  then show ?thesis
    using neq by (simp add: atoi_def Let_def)
qed

lemma getnum_fixed_2:
  assumes "isDigitChar a" "isDigitChar b"
  shows "getnum (a # b # rest) True = Some (int (digitVal a) * 10 + int (digitVal b), rest)"
  using assms by (simp add: getnum_def isDigit_def)

lemma skip_dash: "skip (CHR ''-'' # rest) ''-'' = Some rest"
  by (simp add: skip.simps)

text \<open>
  C9. For every calendar date string of the form YYYY-MM-DD (four digits of year, two
  of month in 01..12, two of day, the day existing in that month of that year),
  \<open>Date.UnmarshalXML\<close> succeeds and \<open>Date.String\<close> of the decoded value is the
  string itself.
\<close>

theorem Date_decode_then_String_identity:
  assumes "isDigitChar y1" "isDigitChar y2" "isDigitChar y3" "isDigitChar y4"
    and "isDigitChar m1" "isDigitChar m2" "isDigitChar d1" "isDigitChar d2"
    and "1 \<le> decimal_value [m1, m2]" "decimal_value [m1, m2] \<le> 12"
    and "1 \<le> decimal_value [d1, d2]"
    and "int (decimal_value [d1, d2])
           \<le> daysIn (int (decimal_value [m1, m2])) (int (decimal_value [y1, y2, y3, y4]))"
  shows "snd (Date_UnmarshalXML (Inr [y1, y2, y3, y4, CHR ''-'', m1, m2, CHR ''-'', d1, d2]) t) = None
         \<and> Date_String (fst (Date_UnmarshalXML (Inr [y1, y2, y3, y4, CHR ''-'', m1, m2, CHR ''-'', d1, d2]) t))
             = [y1, y2, y3, y4, CHR ''-'', m1, m2, CHR ''-'', d1, d2]"
proof -
  let ?s = "[y1, y2, y3, y4, CHR ''-'', m1, m2, CHR ''-'', d1, d2]"
  let ?y = "int (((digitVal y1 * 10 + digitVal y2) * 10 + digitVal y3) * 10 + digitVal y4)"
  let ?m = "int (digitVal m1) * 10 + int (digitVal m2)"
  let ?d = "int (digitVal d1) * 10 + int (digitVal d2)"
  have m: "1 \<le> ?m" "?m \<le> 12" and d: "1 \<le> ?d" "?d \<le> daysIn ?m ?y"
    using assms(9-12) by (simp_all add: decimal_value_def)
  have "Parse_2006_01_02 ?s =
          (\<lparr>year = ?y, month = ?m, day = ?d, hour = 0, minute = 0, second = 0, nsec = 0\<rparr>, None)"
    using m d assms(1)
    by (simp add: Parse_2006_01_02_def isDigit_def atoi_4 [OF assms(1-4)] skip_dash
        getnum_fixed_2 [OF assms(5,6)] getnum_fixed_2 [OF assms(7,8)] del: of_nat_add of_nat_mult)
  then show ?thesis
    using appendInt_4 [OF assms(1-4)] appendInt_2 [OF assms(5,6)] appendInt_2 [OF assms(7,8)]
    by (simp add: Date_UnmarshalXML_def Date_String_def Format_2006_01_02_def
        del: of_nat_add of_nat_mult)
qed

theorem Date_decode_then_String_identity_witness:
  "snd (Date_UnmarshalXML (Inr ''2024-02-29'') zero_Time) = None
   \<and> Date_String (fst (Date_UnmarshalXML (Inr ''2024-02-29'') zero_Time)) = ''2024-02-29''"
  using Date_decode_then_String_identity [of "CHR ''2''" "CHR ''0''" "CHR ''2''" "CHR ''4''"
      "CHR ''0''" "CHR ''2''" "CHR ''2''" "CHR ''9''" zero_Time]
  by (simp add: isDigitChar_def decimal_value_def digitVal_def daysIn_def isLeap_def)

subsection \<open>Time12\<close>

lemmas Time12_eval =
  Time12_UnmarshalXML_def Parse_3_04_PM_def HasPrefix_def getnum_def isDigit_def isDigitChar_def
  digitVal_def skip.simps cutspace_def Sub_def sinceZero_def zero_Time_def daysBeforeYear_def
  daysBeforeMonth_def daysIn_def isLeap_def Second_def Minute_def Hour_def minDuration_def
  maxDuration_def Let_def

text \<open>
  C2. A string that begins with \<open>No \<close> decodes to the sentinel \<open>-1\<close>, as the claim
  says. A valid 12-hour clock string does not decode to the duration since midnight:
  \<open>time.Parse\<close> with the layout \<open>3:04 PM\<close> returns a time on January 1 of year 0, and
  the decoder subtracts \<open>time.Time{}\<close>, which is January 1 of year 1, so the result is
  the duration since midnight less the 366 days of year 0. \<open>3:04 PM\<close> decodes to 15
  hours 4 minutes minus 8784 hours, \<open>12:00 AM\<close> to minus 8784 hours.
\<close>

theorem Time12_decodes_to_a_year_before_midnight:
  "Time12_UnmarshalXML (Inr ''3:04 PM'') 0 = (15 * Hour + 4 * Minute - 366 * 24 * Hour, None)
   \<and> Time12_UnmarshalXML (Inr ''12:00 AM'') 0 = (0 - 366 * 24 * Hour, None)
   \<and> Time12_UnmarshalXML (Inr ''No moonrise'') 0 = (- 1, None)"
  by (simp add: Time12_eval)

subsection \<open>The temperature range\<close>

lemmas day_entry_eval =
  unmarshal_int_def plain_chardata_def sibling_uvIndex_def copyValue_int_def ParseInt_base10_def
  ParseUint_base10_def TrimSpace_def TrimLeft_IsSpace.simps TrimRight_IsSpace.simps
  isSpaceRune_def isDigitChar_def digitVal_def maxUint64_def wrap64_def new_TempRange_def Let_def

text \<open>
  C7, as the claim states it, fails: the Celsius and the Fahrenheit field are decoded
  from two payload elements, each on its own. Two day entries with the same
  \<open>maxtempC\<close> and different \<open>maxtempF\<close> decode to the same \<open>MaxTemp\<close> and different
  \<open>MaxTempF\<close>, so the latter is not obtained from the former by any conversion.
\<close>

theorem TempRange_units_decoded_apart:
  "unmarshal_day_entry plain_chardata sibling_uvIndex
       [Child ''maxtempC'' ''10'', Child ''maxtempF'' ''50''] (new_TempRange, 0)
     = ((\<lparr>TempRange.MaxTemp = 10, MaxTempF = 50, MinTemp = 0, MinTempF = 0\<rparr>, 0), None)
   \<and> unmarshal_day_entry plain_chardata sibling_uvIndex
       [Child ''maxtempC'' ''10'', Child ''maxtempF'' ''99''] (new_TempRange, 0)
     = ((\<lparr>TempRange.MaxTemp = 10, MaxTempF = 99, MinTemp = 0, MinTempF = 0\<rparr>, 0), None)"
  by (simp add: day_entry_eval)

text \<open>
  The decoding of a day entry ends at the first child that fails, whichever field it
  belongs to: after a \<open>uvIndex\<close> that is no number, a later \<open>maxtempC\<close> is not stored.
  White space of Unicode around a number is cut: a no-break space before \<open>21\<close> decodes
  to 21.
\<close>

lemma day_entry_aborts_at_failing_sibling:
  "unmarshal_day_entry plain_chardata sibling_uvIndex
       [Child ''uvIndex'' ''abc'', Child ''maxtempC'' ''10''] (new_TempRange, 0)
     = ((new_TempRange, 0), Some (NumError ''ParseUint'' ''abc'' ErrSyntax))"
  by (simp add: day_entry_eval)

lemma copyValue_int_no_break_space:
  "copyValue_int (CHR 0xC2 # CHR 0xA0 # ''21'') = Inr 21"
  by (simp add: day_entry_eval)

text \<open>
  C7, amended. For every day entry that decodes without error, each of the four
  min/max temperature fields holds the integer of the payload element of its own name
  (\<open>maxtempC\<close>, \<open>maxtempF\<close>, \<open>mintempC\<close>, \<open>mintempF\<close>; the last one if the element is
  repeated, the previous value if it is absent) and depends on no other element: the
  decoder converts no units.
\<close>

theorem TempRange_fields_decoded_independently:
  "unmarshal_day_entry chardata sibling tokens (r, rest) = ((r', rest'), None) \<Longrightarrow>
     TempRange.MaxTemp r' = field_from chardata ''maxtempC'' tokens (TempRange.MaxTemp r)
     \<and> TempRange.MaxTempF r' = field_from chardata ''maxtempF'' tokens (TempRange.MaxTempF r)
     \<and> TempRange.MinTemp r' = field_from chardata ''mintempC'' tokens (TempRange.MinTemp r)
     \<and> TempRange.MinTempF r' = field_from chardata ''mintempF'' tokens (TempRange.MinTempF r)"
proof (induction tokens arbitrary: r rest)
  case Nil
  then show ?case by simp
next
  case (Cons t tokens)
  show ?case
  proof (cases t)
    case (Broken e)
    then show ?thesis
      using Cons.prems by simp
  next
    case (Child name c)
    show ?thesis
    proof (cases "name \<in> {''maxtempC'', ''maxtempF'', ''mintempC'', ''mintempF''}")
      case False
      then obtain rest1 where s: "sibling name c rest = (rest1, None)"
        and run: "unmarshal_day_entry chardata sibling tokens (r, rest1) = ((r', rest'), None)"
        using Cons.prems Child by (auto split: prod.splits option.splits)
      show ?thesis
        using Cons.IH [OF run] False by (simp add: Child)
    next
      case True
      then obtain v where v: "unmarshal_int chardata c = Inr v"
        using Cons.prems Child by (cases "unmarshal_int chardata c") auto
      from True consider "name = ''maxtempC''" | "name = ''maxtempF''" | "name = ''mintempC''"
        | "name = ''mintempF''"
        by auto
      then show ?thesis
      proof cases
        case 1
        then have "unmarshal_day_entry chardata sibling tokens (r\<lparr>TempRange.MaxTemp := v\<rparr>, rest)
                     = ((r', rest'), None)"
          using Cons.prems Child v by simp
        then show ?thesis
          using Cons.IH [of "r\<lparr>TempRange.MaxTemp := v\<rparr>" rest] 1 by (simp add: Child v)
      next
        case 2
        then have "unmarshal_day_entry chardata sibling tokens (r\<lparr>TempRange.MaxTempF := v\<rparr>, rest)
                     = ((r', rest'), None)"
          using Cons.prems Child v by simp
        then show ?thesis
          using Cons.IH [of "r\<lparr>TempRange.MaxTempF := v\<rparr>" rest] 2 by (simp add: Child v)
      next
        case 3
        then have "unmarshal_day_entry chardata sibling tokens (r\<lparr>TempRange.MinTemp := v\<rparr>, rest)
                     = ((r', rest'), None)"
          using Cons.prems Child v by simp
        then show ?thesis
          using Cons.IH [of "r\<lparr>TempRange.MinTemp := v\<rparr>" rest] 3 by (simp add: Child v)
      next
        case 4
        then have "unmarshal_day_entry chardata sibling tokens (r\<lparr>TempRange.MinTempF := v\<rparr>, rest)
                     = ((r', rest'), None)"
          using Cons.prems Child v by simp
        then show ?thesis
          using Cons.IH [of "r\<lparr>TempRange.MinTempF := v\<rparr>" rest] 4 by (simp add: Child v)
      qed
    qed
  qed
qed

theorem TempRange_fields_decoded_independently_witness:
  "unmarshal_day_entry plain_chardata sibling_uvIndex
       [Child ''maxtempC'' (CHR 0xC2 # CHR 0xA0 # ''21''), Child ''uvIndex'' ''5'',
        Child ''maxtempF'' ''70'', Child ''mintempC'' ''-3'', Child ''mintempF'' ''27'']
       (new_TempRange, 0)
     = ((\<lparr>TempRange.MaxTemp = 21, MaxTempF = 70, MinTemp = - 3, MinTempF = 27\<rparr>, 5), None)
   \<and> field_from plain_chardata ''maxtempC''
       [Child ''maxtempC'' (CHR 0xC2 # CHR 0xA0 # ''21''), Child ''uvIndex'' ''5'',
        Child ''maxtempF'' ''70'', Child ''mintempC'' ''-3'', Child ''mintempF'' ''27''] 0
     = 21
   \<and> field_from plain_chardata ''maxtempF''
       [Child ''maxtempC'' (CHR 0xC2 # CHR 0xA0 # ''21''), Child ''uvIndex'' ''5'',
        Child ''maxtempF'' ''70'', Child ''mintempC'' ''-3'', Child ''mintempF'' ''27''] 0
     = 70"
  using TempRange_fields_decoded_independently
    [of plain_chardata sibling_uvIndex
      "[Child ''maxtempC'' (CHR 0xC2 # CHR 0xA0 # ''21''), Child ''uvIndex'' ''5'',
        Child ''maxtempF'' ''70'', Child ''mintempC'' ''-3'', Child ''mintempF'' ''27'']"
      new_TempRange 0
      "\<lparr>TempRange.MaxTemp = 21, MaxTempF = 70, MinTemp = - 3, MinTempF = 27\<rparr>" 5]
  by (simp add: day_entry_eval)

subsection \<open>The client\<close>

lemma range_Set_fold:
  assumes "distinct ks" and "set ks \<subseteq> dom m"
  shows "fold (\<lambda>k vs. Values_Set vs k (the (m k))) ks values
           = (\<lambda>k. if k \<in> set ks then Some [the (m k)] else values k)"
  using assms
proof (induction ks arbitrary: "values")
  case Nil
  then show ?case by simp
next
  case (Cons k ks)
  let ?F = "\<lambda>k vs. Values_Set vs k (the (m k))"
  have "fold ?F ks (Values_Set values k (the (m k)))
          = (\<lambda>k'. if k' \<in> set ks then Some [the (m k')] else (Values_Set values k (the (m k))) k')"
    using Cons.prems by (intro Cons.IH) simp_all
  then have "fold ?F (k # ks) values
          = (\<lambda>k'. if k' \<in> set ks then Some [the (m k')] else (Values_Set values k (the (m k))) k')"
    by (simp only: fold.simps comp_apply)
  also have "\<dots> = (\<lambda>k'. if k' \<in> set (k # ks) then Some [the (m k')] else values k')"
    by (auto simp: Values_Set_def fun_eq_iff)
  finally show ?case .
qed

text \<open>
  The loop over the options map, run in any order over the keys, gives \<open>range_Set\<close>.
\<close>

lemma range_Set_any_order:
  assumes "distinct ks" and "set ks = dom m"
  shows "fold (\<lambda>k vs. Values_Set vs k (the (m k))) ks values = range_Set (Some m) values"
proof -
  have "fold (\<lambda>k vs. Values_Set vs k (the (m k))) ks values
          = (\<lambda>k. if k \<in> set ks then Some [the (m k)] else values k)"
    using assms by (intro range_Set_fold) simp_all
  also have "\<dots> = range_Set (Some m) values"
    using assms(2) by (auto simp: range_Set_def fun_eq_iff split: option.splits)
  finally show ?thesis .
qed

lemma fetch_URL_format: "RawQuery (fetch_URL w service query) ''format'' = Some [''xml'']"
  by (simp add: fetch_URL_def Values_Set_def)

lemma fetch_URL_key:
  "RawQuery (fetch_URL w service query) ''key''
     = (case query of
          None \<Rightarrow> Some [Key w]
        | Some m \<Rightarrow> (case m ''key'' of None \<Rightarrow> Some [Key w] | Some v \<Rightarrow> Some [v]))"
  by (simp add: fetch_URL_def Values_Set_def range_Set_def split: option.splits)

lemma fetch_URL_option:
  assumes "k \<noteq> ''format''" and "m k = Some v"
  shows "RawQuery (fetch_URL w service (Some m)) k = Some [v]"
  using assms by (simp add: fetch_URL_def Values_Set_def range_Set_def)

lemmas Get_defs =
  GetLocal_def GetMarine_def GetSki_def GetPastLocal_def GetPastMarine_def GetSearch_def
  GetTimeZone_def

text \<open>What every \<open>Get\<close> operation does to the options and to the network.\<close>

lemma GetLocal_returns:
  "\<exists>r. GetLocal http_Get unmarshal w location (Some m) = Return r
      \<and> options r = m(''q'' \<mapsto> location, ''date_format'' \<mapsto> '''')
      \<and> requests r = [fetch_URL w ''weather'' (Some (m(''q'' \<mapsto> location, ''date_format'' \<mapsto> '''')))]"
  by (simp add: GetLocal_def fetch_def Let_def split: sum.splits prod.splits option.splits)

lemma GetLocal_nil:
  "GetLocal http_Get unmarshal w location None = Panic ''assignment to entry in nil map''"
  by (simp add: GetLocal_def)

lemma GetMarine_returns:
  "\<exists>r. GetMarine http_Get unmarshal w location (Some m) = Return r
      \<and> options r = m(''q'' \<mapsto> location, ''date_format'' \<mapsto> '''')
      \<and> requests r = [fetch_URL w ''marine'' (Some (m(''q'' \<mapsto> location, ''date_format'' \<mapsto> '''')))]"
  by (simp add: GetMarine_def fetch_def Let_def split: sum.splits prod.splits option.splits)

lemma GetMarine_nil:
  "GetMarine http_Get unmarshal w location None = Panic ''assignment to entry in nil map''"
  by (simp add: GetMarine_def)

lemma GetSki_returns:
  "\<exists>r. GetSki http_Get unmarshal w location (Some m) = Return r
      \<and> options r = m(''q'' \<mapsto> location, ''date_format'' \<mapsto> '''')
      \<and> requests r = [fetch_URL w ''ski'' (Some (m(''q'' \<mapsto> location, ''date_format'' \<mapsto> '''')))]"
  by (simp add: GetSki_def fetch_def Let_def split: sum.splits prod.splits option.splits)

lemma GetSki_nil:
  "GetSki http_Get unmarshal w location None = Panic ''assignment to entry in nil map''"
  by (simp add: GetSki_def)

lemma GetPastLocal_returns:
  "\<exists>r. GetPastLocal http_Get unmarshal w location (Some m) = Return r
      \<and> options r = m(''q'' \<mapsto> location, ''date_format'' \<mapsto> '''')
      \<and> requests r = [fetch_URL w ''past-weather'' (Some (m(''q'' \<mapsto> location, ''date_format'' \<mapsto> '''')))]"
  by (simp add: GetPastLocal_def fetch_def Let_def split: sum.splits prod.splits option.splits)

lemma GetPastLocal_nil:
  "GetPastLocal http_Get unmarshal w location None = Panic ''assignment to entry in nil map''"
  by (simp add: GetPastLocal_def)

lemma GetPastMarine_returns:
  "\<exists>r. GetPastMarine http_Get unmarshal w location (Some m) = Return r
      \<and> options r = m(''q'' \<mapsto> location, ''date_format'' \<mapsto> '''')
      \<and> requests r = [fetch_URL w ''past-marine'' (Some (m(''q'' \<mapsto> location, ''date_format'' \<mapsto> '''')))]"
  by (simp add: GetPastMarine_def fetch_def Let_def split: sum.splits prod.splits option.splits)

lemma GetPastMarine_nil:
  "GetPastMarine http_Get unmarshal w location None = Panic ''assignment to entry in nil map''"
  by (simp add: GetPastMarine_def)

lemma GetSearch_returns:
  "\<exists>r. GetSearch http_Get unmarshal w location (Some m) = Return r
      \<and> options r = m(''q'' \<mapsto> location, ''date_format'' \<mapsto> '''')
      \<and> requests r = [fetch_URL w ''search'' (Some (m(''q'' \<mapsto> location, ''date_format'' \<mapsto> '''')))]"
  by (simp add: GetSearch_def fetch_def Let_def split: sum.splits prod.splits option.splits)

lemma GetSearch_nil:
  "GetSearch http_Get unmarshal w location None = Panic ''assignment to entry in nil map''"
  by (simp add: GetSearch_def)

lemma GetTimeZone_returns:
  "\<exists>r. GetTimeZone http_Get unmarshal w location (Some m) = Return r
      \<and> options r = m(''q'' \<mapsto> location, ''date_format'' \<mapsto> '''')
      \<and> requests r = [fetch_URL w ''tz'' (Some (m(''q'' \<mapsto> location, ''date_format'' \<mapsto> '''')))]"
  by (simp add: GetTimeZone_def fetch_def Let_def split: sum.splits prod.splits option.splits)

lemma GetTimeZone_nil:
  "GetTimeZone http_Get unmarshal w location None = Panic ''assignment to entry in nil map''"
  by (simp add: GetTimeZone_def)

text \<open>
  C1. When the transport delivers a payload that decodes without a decode error and
  that holds an error-message node, every \<open>Get\<close> operation returns the decoded report
  (a non-nil pointer) together with the error \<open>errors.New(message)\<close>, whose text is the
  message.
\<close>

theorem Get_returns_report_and_remote_error:
  "
   (http_Get (fetch_URL w ''weather'' (Some (m(''q'' \<mapsto> location, ''date_format'' \<mapsto> '''')))) = Inr payload
      \<and> unmarshal_Local payload new_Local = (o_Local, None) \<and> Local.Error o_Local = Some msg
    \<longrightarrow> (\<exists>r. GetLocal http_Get unmarshal_Local w location (Some m) = Return r
           \<and> report r = Some o_Local \<and> err r = Some (errors_New msg)
           \<and> message (errors_New msg) = msg))
   \<and>
   (http_Get (fetch_URL w ''marine'' (Some (m(''q'' \<mapsto> location, ''date_format'' \<mapsto> '''')))) = Inr payload
      \<and> unmarshal_Marine payload new_Marine = (o_Marine, None) \<and> Marine.Error o_Marine = Some msg
    \<longrightarrow> (\<exists>r. GetMarine http_Get unmarshal_Marine w location (Some m) = Return r
           \<and> report r = Some o_Marine \<and> err r = Some (errors_New msg)
           \<and> message (errors_New msg) = msg))
   \<and>
   (http_Get (fetch_URL w ''ski'' (Some (m(''q'' \<mapsto> location, ''date_format'' \<mapsto> '''')))) = Inr payload
      \<and> unmarshal_Ski payload new_Ski = (o_Ski, None) \<and> Ski.Error o_Ski = Some msg
    \<longrightarrow> (\<exists>r. GetSki http_Get unmarshal_Ski w location (Some m) = Return r
           \<and> report r = Some o_Ski \<and> err r = Some (errors_New msg)
           \<and> message (errors_New msg) = msg))
   \<and>
   (http_Get (fetch_URL w ''past-weather'' (Some (m(''q'' \<mapsto> location, ''date_format'' \<mapsto> '''')))) = Inr payload
      \<and> unmarshal_PastLocal payload new_PastLocal = (o_PastLocal, None) \<and> PastLocal.Error o_PastLocal = Some msg
    \<longrightarrow> (\<exists>r. GetPastLocal http_Get unmarshal_PastLocal w location (Some m) = Return r
           \<and> report r = Some o_PastLocal \<and> err r = Some (errors_New msg)
           \<and> message (errors_New msg) = msg))
   \<and>
   (http_Get (fetch_URL w ''past-marine'' (Some (m(''q'' \<mapsto> location, ''date_format'' \<mapsto> '''')))) = Inr payload
      \<and> unmarshal_PastMarine payload new_PastMarine = (o_PastMarine, None) \<and> Marine.Error o_PastMarine = Some msg
    \<longrightarrow> (\<exists>r. GetPastMarine http_Get unmarshal_PastMarine w location (Some m) = Return r
           \<and> report r = Some o_PastMarine \<and> err r = Some (errors_New msg)
           \<and> message (errors_New msg) = msg))
   \<and>
   (http_Get (fetch_URL w ''search'' (Some (m(''q'' \<mapsto> location, ''date_format'' \<mapsto> '''')))) = Inr payload
      \<and> unmarshal_Search payload new_Search = (o_Search, None) \<and> Search.Error o_Search = Some msg
    \<longrightarrow> (\<exists>r. GetSearch http_Get unmarshal_Search w location (Some m) = Return r
           \<and> report r = Some o_Search \<and> err r = Some (errors_New msg)
           \<and> message (errors_New msg) = msg))
   \<and>
   (http_Get (fetch_URL w ''tz'' (Some (m(''q'' \<mapsto> location, ''date_format'' \<mapsto> '''')))) = Inr payload
      \<and> unmarshal_TimeZone payload new_TimeZone = (o_TimeZone, None) \<and> TimeZone.Error o_TimeZone = Some msg
    \<longrightarrow> (\<exists>r. GetTimeZone http_Get unmarshal_TimeZone w location (Some m) = Return r
           \<and> report r = Some o_TimeZone \<and> err r = Some (errors_New msg)
           \<and> message (errors_New msg) = msg))
  "
  by (simp add: Get_defs fetch_def errors_New_def Let_def)

theorem Get_returns_report_and_remote_error_witness:
  "
   (\<exists>r. GetLocal (transport_delivers ''<data><error><msg>no location</msg></error></data>'')
           (decoder_Local (Some ''no location'') None)
           \<lparr>Key = ''0123456789abcdef'', Insecure = False\<rparr> ''Atlantis'' (Some (map_of [(''fx'', ''no'')]))
         = Return r
       \<and> report r = Some (new_Local\<lparr>Local.Error := Some ''no location''\<rparr>)
       \<and> err r = Some (errors_New ''no location'')
       \<and> message (errors_New ''no location'') = ''no location'')
   \<and>
   (\<exists>r. GetMarine (transport_delivers ''<data><error><msg>no location</msg></error></data>'')
           (decoder_Marine (Some ''no location'') None)
           \<lparr>Key = ''0123456789abcdef'', Insecure = False\<rparr> ''Atlantis'' (Some (map_of [(''fx'', ''no'')]))
         = Return r
       \<and> report r = Some (new_Marine\<lparr>Marine.Error := Some ''no location''\<rparr>)
       \<and> err r = Some (errors_New ''no location'')
       \<and> message (errors_New ''no location'') = ''no location'')
   \<and>
   (\<exists>r. GetSki (transport_delivers ''<data><error><msg>no location</msg></error></data>'')
           (decoder_Ski (Some ''no location'') None)
           \<lparr>Key = ''0123456789abcdef'', Insecure = False\<rparr> ''Atlantis'' (Some (map_of [(''fx'', ''no'')]))
         = Return r
       \<and> report r = Some (new_Ski\<lparr>Ski.Error := Some ''no location''\<rparr>)
       \<and> err r = Some (errors_New ''no location'')
       \<and> message (errors_New ''no location'') = ''no location'')
   \<and>
   (\<exists>r. GetPastLocal (transport_delivers ''<data><error><msg>no location</msg></error></data>'')
           (decoder_PastLocal (Some ''no location'') None)
           \<lparr>Key = ''0123456789abcdef'', Insecure = False\<rparr> ''Atlantis'' (Some (map_of [(''fx'', ''no'')]))
         = Return r
       \<and> report r = Some (new_PastLocal\<lparr>PastLocal.Error := Some ''no location''\<rparr>)
       \<and> err r = Some (errors_New ''no location'')
       \<and> message (errors_New ''no location'') = ''no location'')
   \<and>
   (\<exists>r. GetPastMarine (transport_delivers ''<data><error><msg>no location</msg></error></data>'')
           (decoder_Marine (Some ''no location'') None)
           \<lparr>Key = ''0123456789abcdef'', Insecure = False\<rparr> ''Atlantis'' (Some (map_of [(''fx'', ''no'')]))
         = Return r
       \<and> report r = Some (new_PastMarine\<lparr>Marine.Error := Some ''no location''\<rparr>)
       \<and> err r = Some (errors_New ''no location'')
       \<and> message (errors_New ''no location'') = ''no location'')
   \<and>
   (\<exists>r. GetSearch (transport_delivers ''<data><error><msg>no location</msg></error></data>'')
           (decoder_Search (Some ''no location'') None)
           \<lparr>Key = ''0123456789abcdef'', Insecure = False\<rparr> ''Atlantis'' (Some (map_of [(''fx'', ''no'')]))
         = Return r
       \<and> report r = Some (new_Search\<lparr>Search.Error := Some ''no location''\<rparr>)
       \<and> err r = Some (errors_New ''no location'')
       \<and> message (errors_New ''no location'') = ''no location'')
   \<and>
   (\<exists>r. GetTimeZone (transport_delivers ''<data><error><msg>no location</msg></error></data>'')
           (decoder_TimeZone (Some ''no location'') None)
           \<lparr>Key = ''0123456789abcdef'', Insecure = False\<rparr> ''Atlantis'' (Some (map_of [(''fx'', ''no'')]))
         = Return r
       \<and> report r = Some (new_TimeZone\<lparr>TimeZone.Error := Some ''no location''\<rparr>)
       \<and> err r = Some (errors_New ''no location'')
       \<and> message (errors_New ''no location'') = ''no location'')
  "
  using Get_returns_report_and_remote_error
    [of "transport_delivers ''<data><error><msg>no location</msg></error></data>''"
      "\<lparr>Key = ''0123456789abcdef'', Insecure = False\<rparr>" "map_of [(''fx'', ''no'')]" "''Atlantis''"
      "''<data><error><msg>no location</msg></error></data>''"
      "decoder_Local (Some ''no location'') None" "new_Local\<lparr>Local.Error := Some ''no location''\<rparr>"
      "''no location''"
      "decoder_Marine (Some ''no location'') None" "new_Marine\<lparr>Marine.Error := Some ''no location''\<rparr>"
      "decoder_Ski (Some ''no location'') None" "new_Ski\<lparr>Ski.Error := Some ''no location''\<rparr>"
      "decoder_PastLocal (Some ''no location'') None" "new_PastLocal\<lparr>PastLocal.Error := Some ''no location''\<rparr>"
      "decoder_Marine (Some ''no location'') None" "new_PastMarine\<lparr>Marine.Error := Some ''no location''\<rparr>"
      "decoder_Search (Some ''no location'') None" "new_Search\<lparr>Search.Error := Some ''no location''\<rparr>"
      "decoder_TimeZone (Some ''no location'') None" "new_TimeZone\<lparr>TimeZone.Error := Some ''no location''\<rparr>"]
  by (simp add: transport_delivers_def decoder_Local_def decoder_Marine_def decoder_Ski_def
      decoder_PastLocal_def decoder_Search_def decoder_TimeZone_def)

text \<open>
  C4. When the transport delivers a payload on which \<open>xml.Unmarshal\<close> fails, every
  \<open>Get\<close> operation returns a non-nil report, namely the report as the decoder left it
  when it failed, together with the decoder's error.
\<close>

theorem Get_returns_partial_report_and_decode_error:
  "
   (http_Get (fetch_URL w ''weather'' (Some (m(''q'' \<mapsto> location, ''date_format'' \<mapsto> '''')))) = Inr payload
      \<and> unmarshal_Local payload new_Local = (o_Local, Some e_Local)
    \<longrightarrow> (\<exists>r. GetLocal http_Get unmarshal_Local w location (Some m) = Return r
           \<and> report r = Some o_Local \<and> err r = Some e_Local))
   \<and>
   (http_Get (fetch_URL w ''marine'' (Some (m(''q'' \<mapsto> location, ''date_format'' \<mapsto> '''')))) = Inr payload
      \<and> unmarshal_Marine payload new_Marine = (o_Marine, Some e_Marine)
    \<longrightarrow> (\<exists>r. GetMarine http_Get unmarshal_Marine w location (Some m) = Return r
           \<and> report r = Some o_Marine \<and> err r = Some e_Marine))
   \<and>
   (http_Get (fetch_URL w ''ski'' (Some (m(''q'' \<mapsto> location, ''date_format'' \<mapsto> '''')))) = Inr payload
      \<and> unmarshal_Ski payload new_Ski = (o_Ski, Some e_Ski)
    \<longrightarrow> (\<exists>r. GetSki http_Get unmarshal_Ski w location (Some m) = Return r
           \<and> report r = Some o_Ski \<and> err r = Some e_Ski))
   \<and>
   (http_Get (fetch_URL w ''past-weather'' (Some (m(''q'' \<mapsto> location, ''date_format'' \<mapsto> '''')))) = Inr payload
      \<and> unmarshal_PastLocal payload new_PastLocal = (o_PastLocal, Some e_PastLocal)
    \<longrightarrow> (\<exists>r. GetPastLocal http_Get unmarshal_PastLocal w location (Some m) = Return r
           \<and> report r = Some o_PastLocal \<and> err r = Some e_PastLocal))
   \<and>
   (http_Get (fetch_URL w ''past-marine'' (Some (m(''q'' \<mapsto> location, ''date_format'' \<mapsto> '''')))) = Inr payload
      \<and> unmarshal_PastMarine payload new_PastMarine = (o_PastMarine, Some e_PastMarine)
    \<longrightarrow> (\<exists>r. GetPastMarine http_Get unmarshal_PastMarine w location (Some m) = Return r
           \<and> report r = Some o_PastMarine \<and> err r = Some e_PastMarine))
   \<and>
   (http_Get (fetch_URL w ''search'' (Some (m(''q'' \<mapsto> location, ''date_format'' \<mapsto> '''')))) = Inr payload
      \<and> unmarshal_Search payload new_Search = (o_Search, Some e_Search)
    \<longrightarrow> (\<exists>r. GetSearch http_Get unmarshal_Search w location (Some m) = Return r
           \<and> report r = Some o_Search \<and> err r = Some e_Search))
   \<and>
   (http_Get (fetch_URL w ''tz'' (Some (m(''q'' \<mapsto> location, ''date_format'' \<mapsto> '''')))) = Inr payload
      \<and> unmarshal_TimeZone payload new_TimeZone = (o_TimeZone, Some e_TimeZone)
    \<longrightarrow> (\<exists>r. GetTimeZone http_Get unmarshal_TimeZone w location (Some m) = Return r
           \<and> report r = Some o_TimeZone \<and> err r = Some e_TimeZone))
  "
  by (simp add: Get_defs fetch_def Let_def)

theorem Get_returns_partial_report_and_decode_error_witness:
  "
   (\<exists>r. GetLocal (transport_delivers ''<data><request>'')
           (decoder_Local None (Some (External ''XML syntax error on line 1: unexpected EOF'')))
           \<lparr>Key = ''0123456789abcdef'', Insecure = False\<rparr> ''London'' (Some (map_of [(''fx'', ''no'')]))
         = Return r
       \<and> report r = Some new_Local
       \<and> err r = Some (External ''XML syntax error on line 1: unexpected EOF''))
   \<and>
   (\<exists>r. GetMarine (transport_delivers ''<data><request>'')
           (decoder_Marine None (Some (External ''XML syntax error on line 1: unexpected EOF'')))
           \<lparr>Key = ''0123456789abcdef'', Insecure = False\<rparr> ''London'' (Some (map_of [(''fx'', ''no'')]))
         = Return r
       \<and> report r = Some new_Marine
       \<and> err r = Some (External ''XML syntax error on line 1: unexpected EOF''))
   \<and>
   (\<exists>r. GetSki (transport_delivers ''<data><request>'')
           (decoder_Ski None (Some (External ''XML syntax error on line 1: unexpected EOF'')))
           \<lparr>Key = ''0123456789abcdef'', Insecure = False\<rparr> ''London'' (Some (map_of [(''fx'', ''no'')]))
         = Return r
       \<and> report r = Some new_Ski
       \<and> err r = Some (External ''XML syntax error on line 1: unexpected EOF''))
   \<and>
   (\<exists>r. GetPastLocal (transport_delivers ''<data><request>'')
           (decoder_PastLocal None (Some (External ''XML syntax error on line 1: unexpected EOF'')))
           \<lparr>Key = ''0123456789abcdef'', Insecure = False\<rparr> ''London'' (Some (map_of [(''fx'', ''no'')]))
         = Return r
       \<and> report r = Some new_PastLocal
       \<and> err r = Some (External ''XML syntax error on line 1: unexpected EOF''))
   \<and>
   (\<exists>r. GetPastMarine (transport_delivers ''<data><request>'')
           (decoder_Marine None (Some (External ''XML syntax error on line 1: unexpected EOF'')))
           \<lparr>Key = ''0123456789abcdef'', Insecure = False\<rparr> ''London'' (Some (map_of [(''fx'', ''no'')]))
         = Return r
       \<and> report r = Some new_PastMarine
       \<and> err r = Some (External ''XML syntax error on line 1: unexpected EOF''))
   \<and>
   (\<exists>r. GetSearch (transport_delivers ''<data><request>'')
           (decoder_Search None (Some (External ''XML syntax error on line 1: unexpected EOF'')))
           \<lparr>Key = ''0123456789abcdef'', Insecure = False\<rparr> ''London'' (Some (map_of [(''fx'', ''no'')]))
         = Return r
       \<and> report r = Some new_Search
       \<and> err r = Some (External ''XML syntax error on line 1: unexpected EOF''))
   \<and>
   (\<exists>r. GetTimeZone (transport_delivers ''<data><request>'')
           (decoder_TimeZone None (Some (External ''XML syntax error on line 1: unexpected EOF'')))
           \<lparr>Key = ''0123456789abcdef'', Insecure = False\<rparr> ''London'' (Some (map_of [(''fx'', ''no'')]))
         = Return r
       \<and> report r = Some new_TimeZone
       \<and> err r = Some (External ''XML syntax error on line 1: unexpected EOF''))
  "
  using Get_returns_partial_report_and_decode_error
    [of "transport_delivers ''<data><request>''"
      "\<lparr>Key = ''0123456789abcdef'', Insecure = False\<rparr>" "map_of [(''fx'', ''no'')]" "''London''"
      "''<data><request>''"
      "decoder_Local None (Some (External ''XML syntax error on line 1: unexpected EOF''))" "new_Local"
      "External ''XML syntax error on line 1: unexpected EOF''"
      "decoder_Marine None (Some (External ''XML syntax error on line 1: unexpected EOF''))" "new_Marine"
      "External ''XML syntax error on line 1: unexpected EOF''"
      "decoder_Ski None (Some (External ''XML syntax error on line 1: unexpected EOF''))" "new_Ski"
      "External ''XML syntax error on line 1: unexpected EOF''"
      "decoder_PastLocal None (Some (External ''XML syntax error on line 1: unexpected EOF''))" "new_PastLocal"
      "External ''XML syntax error on line 1: unexpected EOF''"
      "decoder_Marine None (Some (External ''XML syntax error on line 1: unexpected EOF''))" "new_PastMarine"
      "External ''XML syntax error on line 1: unexpected EOF''"
      "decoder_Search None (Some (External ''XML syntax error on line 1: unexpected EOF''))" "new_Search"
      "External ''XML syntax error on line 1: unexpected EOF''"
      "decoder_TimeZone None (Some (External ''XML syntax error on line 1: unexpected EOF''))" "new_TimeZone"
      "External ''XML syntax error on line 1: unexpected EOF''"]
  by (simp add: transport_delivers_def decoder_Local_def decoder_Marine_def decoder_Ski_def
      decoder_PastLocal_def decoder_Search_def decoder_TimeZone_def
      new_Local_def new_Marine_def new_PastMarine_def new_Ski_def new_PastLocal_def new_Search_def
      new_TimeZone_def)

text \<open>
  C5, as the claim states it, fails for the entry \<open>key\<close>: \<open>fetch\<close> sets the credential
  before it copies the options, so an option named \<open>key\<close> replaces the credential.
\<close>

theorem fetch_key_overridden_by_option:
  "RawQuery (fetch_URL \<lparr>Key = ''secret'', Insecure = False\<rparr> ''weather''
       (Some (map_of [(''key'', ''other'')]))) ''key'' = Some [''other'']
   \<and> RawQuery (fetch_URL \<lparr>Key = ''secret'', Insecure = False\<rparr> ''weather''
       (Some (map_of [(''key'', ''other'')]))) ''key'' \<noteq> Some [Key \<lparr>Key = ''secret'', Insecure = False\<rparr>]"
  by (simp add: fetch_URL_def Values_Set_def range_Set_def)

text \<open>
  C5, amended. For every options mapping, \<open>fetch\<close> makes one request, whose query
  parameters contain \<open>format = xml\<close> even when the options have an entry named
  \<open>format\<close>; they contain \<open>key\<close> = the client's credential when the options have no
  entry named \<open>key\<close>, and the caller's value for \<open>key\<close> when they have one.
\<close>

theorem fetch_sends_format_and_key:
  "\<exists>u. fst (fetch http_Get w service query) = [u]
      \<and> RawQuery u ''format'' = Some [''xml'']
      \<and> RawQuery u ''key''
          = (case query of
               None \<Rightarrow> Some [Key w]
             | Some m \<Rightarrow> (case m ''key'' of None \<Rightarrow> Some [Key w] | Some v \<Rightarrow> Some [v]))"
  by (simp add: fetch_def Let_def fetch_URL_format fetch_URL_key)

text \<open>
  C6, as the claim states it, fails: the call changes the caller's options mapping. A
  mapping without an entry \<open>q\<close> has one after \<open>GetLocal\<close> returns.
\<close>

theorem GetLocal_changes_options:
  "map_of [(''fx'', ''no'')] ''q'' = None
   \<and> \<not> is_Panic (GetLocal transport_fails (decoder_Local None None)
          \<lparr>Key = ''secret'', Insecure = False\<rparr> ''London'' (Some (map_of [(''fx'', ''no'')])))
   \<and> options (returned (GetLocal transport_fails (decoder_Local None None)
          \<lparr>Key = ''secret'', Insecure = False\<rparr> ''London'' (Some (map_of [(''fx'', ''no'')])))) ''q''
       = Some ''London''"
  by (simp add: GetLocal_def fetch_def Let_def transport_fails_def)

text \<open>
  C6, amended. A \<open>Get\<close> operation called with a non-nil options mapping makes exactly
  one outbound request and changes the caller's options mapping in exactly two entries:
  afterwards \<open>q\<close> is the location and \<open>date_format\<close> is the empty string, and every other
  entry is as before.
\<close>

theorem Get_effects:
  "
   (\<exists>r. GetLocal http_Get unmarshal_Local w location (Some m) = Return r
       \<and> options r = m(''q'' \<mapsto> location, ''date_format'' \<mapsto> '''')
       \<and> length (requests r) = 1)
   \<and>
   (\<exists>r. GetMarine http_Get unmarshal_Marine w location (Some m) = Return r
       \<and> options r = m(''q'' \<mapsto> location, ''date_format'' \<mapsto> '''')
       \<and> length (requests r) = 1)
   \<and>
   (\<exists>r. GetSki http_Get unmarshal_Ski w location (Some m) = Return r
       \<and> options r = m(''q'' \<mapsto> location, ''date_format'' \<mapsto> '''')
       \<and> length (requests r) = 1)
   \<and>
   (\<exists>r. GetPastLocal http_Get unmarshal_PastLocal w location (Some m) = Return r
       \<and> options r = m(''q'' \<mapsto> location, ''date_format'' \<mapsto> '''')
       \<and> length (requests r) = 1)
   \<and>
   (\<exists>r. GetPastMarine http_Get unmarshal_PastMarine w location (Some m) = Return r
       \<and> options r = m(''q'' \<mapsto> location, ''date_format'' \<mapsto> '''')
       \<and> length (requests r) = 1)
   \<and>
   (\<exists>r. GetSearch http_Get unmarshal_Search w location (Some m) = Return r
       \<and> options r = m(''q'' \<mapsto> location, ''date_format'' \<mapsto> '''')
       \<and> length (requests r) = 1)
   \<and>
   (\<exists>r. GetTimeZone http_Get unmarshal_TimeZone w location (Some m) = Return r
       \<and> options r = m(''q'' \<mapsto> location, ''date_format'' \<mapsto> '''')
       \<and> length (requests r) = 1)
  "
  using GetLocal_returns [of http_Get unmarshal_Local w location m]
    GetMarine_returns [of http_Get unmarshal_Marine w location m]
    GetSki_returns [of http_Get unmarshal_Ski w location m]
    GetPastLocal_returns [of http_Get unmarshal_PastLocal w location m]
    GetPastMarine_returns [of http_Get unmarshal_PastMarine w location m]
    GetSearch_returns [of http_Get unmarshal_Search w location m]
    GetTimeZone_returns [of http_Get unmarshal_TimeZone w location m]
  by auto

text \<open>
  C8, as the claim states it, fails for a call with a nil options mapping: the call
  panics at the assignment of \<open>q\<close>, before \<open>fetch\<close> is reached, and sends nothing.
\<close>

theorem GetLocal_nil_options_sends_nothing:
  "GetLocal (transport_delivers ''<data></data>'') (decoder_Local None None)
       \<lparr>Key = ''secret'', Insecure = False\<rparr> ''London'' None
     = Panic ''assignment to entry in nil map''
   \<and> is_Panic (GetLocal (transport_delivers ''<data></data>'') (decoder_Local None None)
       \<lparr>Key = ''secret'', Insecure = False\<rparr> ''London'' None)"
  by (simp add: GetLocal_def)

text \<open>
  C8, amended. Every \<open>Get\<close> operation called with a non-nil options mapping sends one
  request whose query parameter \<open>q\<close> is the location argument and whose parameter
  \<open>date_format\<close> is the empty string, whatever the caller's options hold for these two
  keys.
\<close>

theorem Get_sends_location_and_empty_date_format:
  "
   (\<exists>r u. GetLocal http_Get unmarshal_Local w location (Some m) = Return r
       \<and> requests r = [u]
       \<and> RawQuery u ''q'' = Some [location]
       \<and> RawQuery u ''date_format'' = Some [''''])
   \<and>
   (\<exists>r u. GetMarine http_Get unmarshal_Marine w location (Some m) = Return r
       \<and> requests r = [u]
       \<and> RawQuery u ''q'' = Some [location]
       \<and> RawQuery u ''date_format'' = Some [''''])
   \<and>
   (\<exists>r u. GetSki http_Get unmarshal_Ski w location (Some m) = Return r
       \<and> requests r = [u]
       \<and> RawQuery u ''q'' = Some [location]
       \<and> RawQuery u ''date_format'' = Some [''''])
   \<and>
   (\<exists>r u. GetPastLocal http_Get unmarshal_PastLocal w location (Some m) = Return r
       \<and> requests r = [u]
       \<and> RawQuery u ''q'' = Some [location]
       \<and> RawQuery u ''date_format'' = Some [''''])
   \<and>
   (\<exists>r u. GetPastMarine http_Get unmarshal_PastMarine w location (Some m) = Return r
       \<and> requests r = [u]
       \<and> RawQuery u ''q'' = Some [location]
       \<and> RawQuery u ''date_format'' = Some [''''])
   \<and>
   (\<exists>r u. GetSearch http_Get unmarshal_Search w location (Some m) = Return r
       \<and> requests r = [u]
       \<and> RawQuery u ''q'' = Some [location]
       \<and> RawQuery u ''date_format'' = Some [''''])
   \<and>
   (\<exists>r u. GetTimeZone http_Get unmarshal_TimeZone w location (Some m) = Return r
       \<and> requests r = [u]
       \<and> RawQuery u ''q'' = Some [location]
       \<and> RawQuery u ''date_format'' = Some [''''])
  "
  using GetLocal_returns [of http_Get unmarshal_Local w location m]
    GetMarine_returns [of http_Get unmarshal_Marine w location m]
    GetSki_returns [of http_Get unmarshal_Ski w location m]
    GetPastLocal_returns [of http_Get unmarshal_PastLocal w location m]
    GetPastMarine_returns [of http_Get unmarshal_PastMarine w location m]
    GetSearch_returns [of http_Get unmarshal_Search w location m]
    GetTimeZone_returns [of http_Get unmarshal_TimeZone w location m]
  by (auto simp: fetch_URL_option)

text \<open>
  C10. Called with a nil options mapping, every \<open>Get\<close> operation panics at the first
  assignment into the mapping and returns nothing; called with a non-nil mapping it
  returns.
\<close>

theorem Get_panics_exactly_on_nil_options:
  "
   (GetLocal http_Get unmarshal_Local w location None = Panic ''assignment to entry in nil map''
    \<and> (\<exists>r. GetLocal http_Get unmarshal_Local w location (Some m) = Return r))
   \<and>
   (GetMarine http_Get unmarshal_Marine w location None = Panic ''assignment to entry in nil map''
    \<and> (\<exists>r. GetMarine http_Get unmarshal_Marine w location (Some m) = Return r))
   \<and>
   (GetSki http_Get unmarshal_Ski w location None = Panic ''assignment to entry in nil map''
    \<and> (\<exists>r. GetSki http_Get unmarshal_Ski w location (Some m) = Return r))
   \<and>
   (GetPastLocal http_Get unmarshal_PastLocal w location None = Panic ''assignment to entry in nil map''
    \<and> (\<exists>r. GetPastLocal http_Get unmarshal_PastLocal w location (Some m) = Return r))
   \<and>
   (GetPastMarine http_Get unmarshal_PastMarine w location None = Panic ''assignment to entry in nil map''
    \<and> (\<exists>r. GetPastMarine http_Get unmarshal_PastMarine w location (Some m) = Return r))
   \<and>
   (GetSearch http_Get unmarshal_Search w location None = Panic ''assignment to entry in nil map''
    \<and> (\<exists>r. GetSearch http_Get unmarshal_Search w location (Some m) = Return r))
   \<and>
   (GetTimeZone http_Get unmarshal_TimeZone w location None = Panic ''assignment to entry in nil map''
    \<and> (\<exists>r. GetTimeZone http_Get unmarshal_TimeZone w location (Some m) = Return r))
  "
  using GetLocal_returns [of http_Get unmarshal_Local w location m]
    GetMarine_returns [of http_Get unmarshal_Marine w location m]
    GetSki_returns [of http_Get unmarshal_Ski w location m]
    GetPastLocal_returns [of http_Get unmarshal_PastLocal w location m]
    GetPastMarine_returns [of http_Get unmarshal_PastMarine w location m]
    GetSearch_returns [of http_Get unmarshal_Search w location m]
    GetTimeZone_returns [of http_Get unmarshal_TimeZone w location m]
  by (auto simp: GetLocal_nil GetMarine_nil GetSki_nil GetPastLocal_nil GetPastMarine_nil
      GetSearch_nil GetTimeZone_nil)


end
